theory Spec2Isabelle
  imports Complex_Main "HOL-Library.Word"
begin

section \<open>JavaScript strings\<close>

text \<open>
  A JavaScript string is a sequence of UTF-16 code units. The program compares strings
  with \<^verbatim>\<open>===\<close> (equality of the sequences), orders socket ids with \<^verbatim>\<open><\<close> and
  strips transcript text with \<^verbatim>\<open>trim()\<close>.
\<close>

type_synonym jsstring = "16 word list"

definition js :: "string \<Rightarrow> jsstring" where
  "js s = map of_char s"

text \<open>
  \<^verbatim>\<open>a < b\<close> on two strings: the first differing code unit decides, and a proper
  prefix is smaller.
\<close>

fun js_lt :: "jsstring \<Rightarrow> jsstring \<Rightarrow> bool" where
  "js_lt [] [] = False"
| "js_lt [] (y # ys) = True"
| "js_lt (x # xs) [] = False"
| "js_lt (x # xs) (y # ys) = (if x < y then True else if y < x then False else js_lt xs ys)"

text \<open>The code units removed by \<^verbatim>\<open>trim()\<close>: white space and line terminators.\<close>

definition is_js_space :: "16 word \<Rightarrow> bool" where
  "is_js_space c =
     (c = 0x0009 \<or> c = 0x000A \<or> c = 0x000B \<or> c = 0x000C \<or> c = 0x000D \<or> c = 0x0020
      \<or> c = 0x00A0 \<or> c = 0x1680 \<or> (0x2000 \<le> c \<and> c \<le> 0x200A) \<or> c = 0x2028
      \<or> c = 0x2029 \<or> c = 0x202F \<or> c = 0x205F \<or> c = 0x3000 \<or> c = 0xFEFF)"

definition trim :: "jsstring \<Rightarrow> jsstring" where
  "trim s = rev (dropWhile is_js_space (rev (dropWhile is_js_space s)))"

text \<open>Truthiness of a value that is a string, \<^verbatim>\<open>null\<close> or \<^verbatim>\<open>undefined\<close>.\<close>

fun truthy :: "jsstring option \<Rightarrow> bool" where
  "truthy None = False"
| "truthy (Some s) = (s \<noteq> [])"

section \<open>The in-memory meeting (class \<^verbatim>\<open>InMemoryMeeting\<close> of the meeting store)\<close>

text \<open>
  A \<^verbatim>\<open>Date\<close> is the number of milliseconds the clock shows; every handler reads the
  clock as an input \<open>now\<close>.
\<close>

type_synonym timestamp = nat

record participant =
  userId :: jsstring
  username :: jsstring
  socketId :: "jsstring option"
  isAudioMuted :: bool
  isVideoOff :: bool
  isHandRaised :: bool
  isScreenSharing :: bool
  joinedAt :: timestamp

datatype activity_type =
  Join | Leave | HandRaise | HandLower | ScreenShareStart | ScreenShareStop
  | Mute | Unmute | VideoOff | VideoOn

text \<open>An activity's \<^verbatim>\<open>details\<close> are the default \<^verbatim>\<open>{}\<close> at every call and are left out.\<close>

record activity =
  act_type :: activity_type
  act_userId :: jsstring
  act_username :: jsstring
  act_timestamp :: timestamp

record transcript_entry =
  tr_userId :: jsstring
  tr_username :: jsstring
  tr_text :: jsstring
  tr_isFinal :: bool
  tr_timestamp :: timestamp

datatype message_type = TextType | FileType | PollType

text \<open>
  The text of a poll option is \<^verbatim>\<open>opt.text || opt\<close>: a string, or the option object
  itself when it carries no text.
\<close>

datatype option_text = OptText jsstring | OptSelf

record poll_option =
  opt_text :: option_text
  votes :: "jsstring list"
  count :: nat

text \<open>
  A stored chat entry. Ids are JavaScript numbers (\<^verbatim>\<open>Date.now() + Math.random()\<close>),
  only ever compared with \<^verbatim>\<open>===\<close>; \<open>None\<close> is \<^verbatim>\<open>undefined\<close>. \<open>msg_text\<close> is the
  message text, the shared file or the poll question.
\<close>

record message =
  msg_id :: "rat option"
  msg_type :: message_type
  msg_meetingId :: jsstring
  msg_userId :: jsstring
  msg_username :: jsstring
  msg_text :: jsstring
  msg_options :: "poll_option list"

record meeting =
  meetingId :: jsstring
  host :: jsstring
  hostUsername :: jsstring
  title :: jsstring
  participants :: "participant list"
  messages :: "message list"
  transcript :: "transcript_entry list"
  activities :: "activity list"
  createdAt :: timestamp
  isActive :: bool
  endedAt :: "timestamp option"

definition new_meeting :: "jsstring \<Rightarrow> jsstring \<Rightarrow> jsstring \<Rightarrow> jsstring \<Rightarrow> timestamp \<Rightarrow> meeting" where
  "new_meeting mid h hname t now =
     \<lparr>meetingId = mid, host = h, hostUsername = hname, title = t, participants = [],
      messages = [], transcript = [], activities = [], createdAt = now, isActive = True,
      endedAt = None\<rparr>"

text \<open>\<^verbatim>\<open>push\<close> followed by \<^verbatim>\<open>if (length > cap) shift()\<close>.\<close>

definition push_bounded :: "nat \<Rightarrow> 'a list \<Rightarrow> 'a \<Rightarrow> 'a list" where
  "push_bounded cap xs x = (let ys = xs @ [x] in if length ys > cap then tl ys else ys)"

definition addActivity :: "meeting \<Rightarrow> activity_type \<Rightarrow> jsstring \<Rightarrow> jsstring \<Rightarrow> timestamp \<Rightarrow> meeting" where
  "addActivity m ty uid uname now =
     m\<lparr>activities := push_bounded 500 (activities m)
          \<lparr>act_type = ty, act_userId = uid, act_username = uname, act_timestamp = now\<rparr>\<rparr>"

definition addParticipant :: "meeting \<Rightarrow> jsstring \<Rightarrow> jsstring \<Rightarrow> jsstring option \<Rightarrow> timestamp \<Rightarrow> meeting" where
  "addParticipant m uid uname sid now =
     (let ps = filter (\<lambda>p. userId p \<noteq> uid) (participants m);
          participant = \<lparr>userId = uid, username = uname, socketId = sid, isAudioMuted = False,
                         isVideoOff = False, isHandRaised = False, isScreenSharing = False,
                         joinedAt = now\<rparr>
      in addActivity (m\<lparr>participants := ps @ [participant]\<rparr>) Join uid uname now)"

definition getParticipant :: "meeting \<Rightarrow> jsstring \<Rightarrow> participant option" where
  "getParticipant m uid = find (\<lambda>p. userId p = uid) (participants m)"

definition removeParticipant :: "meeting \<Rightarrow> jsstring \<Rightarrow> timestamp \<Rightarrow> meeting" where
  "removeParticipant m uid now =
     (let m1 = (case getParticipant m uid of
                  Some p \<Rightarrow> addActivity m Leave uid (username p) now
                | None \<Rightarrow> m)
      in m1\<lparr>participants := filter (\<lambda>p. userId p \<noteq> uid) (participants m1)\<rparr>)"

text \<open>The \<^verbatim>\<open>updates\<close> object: a field that is \<open>None\<close> is absent.\<close>

record updates =
  upd_socketId :: "jsstring option"
  upd_isHandRaised :: "bool option"
  upd_isScreenSharing :: "bool option"
  upd_isAudioMuted :: "bool option"
  upd_isVideoOff :: "bool option"

definition no_updates :: updates where
  "no_updates = \<lparr>upd_socketId = None, upd_isHandRaised = None, upd_isScreenSharing = None,
                  upd_isAudioMuted = None, upd_isVideoOff = None\<rparr>"

text \<open>\<^verbatim>\<open>Object.assign(participant, updates)\<close>.\<close>

definition assign :: "participant \<Rightarrow> updates \<Rightarrow> participant" where
  "assign p u =
     p\<lparr>socketId := (case upd_socketId u of Some s \<Rightarrow> Some s | None \<Rightarrow> socketId p),
       isHandRaised := (case upd_isHandRaised u of Some b \<Rightarrow> b | None \<Rightarrow> isHandRaised p),
       isScreenSharing := (case upd_isScreenSharing u of Some b \<Rightarrow> b | None \<Rightarrow> isScreenSharing p),
       isAudioMuted := (case upd_isAudioMuted u of Some b \<Rightarrow> b | None \<Rightarrow> isAudioMuted p),
       isVideoOff := (case upd_isVideoOff u of Some b \<Rightarrow> b | None \<Rightarrow> isVideoOff p)\<rparr>"

text \<open>
  The participant object that \<^verbatim>\<open>find\<close> returned is mutated in place: the first entry
  of the list with this user id changes, the others stay.
\<close>

fun assign_first :: "jsstring \<Rightarrow> updates \<Rightarrow> participant list \<Rightarrow> participant list" where
  "assign_first uid u [] = []"
| "assign_first uid u (p # ps) =
     (if userId p = uid then assign p u # ps else p # assign_first uid u ps)"

definition log_change :: "meeting \<Rightarrow> bool option \<Rightarrow> bool \<Rightarrow> activity_type \<Rightarrow> activity_type
    \<Rightarrow> jsstring \<Rightarrow> jsstring \<Rightarrow> timestamp \<Rightarrow> meeting" where
  "log_change m new old on off uid uname now =
     (case new of
        None \<Rightarrow> m
      | Some b \<Rightarrow> if b \<noteq> old then addActivity m (if b then on else off) uid uname now else m)"

definition updateParticipant :: "meeting \<Rightarrow> jsstring \<Rightarrow> updates \<Rightarrow> timestamp \<Rightarrow> meeting" where
  "updateParticipant m uid u now =
     (case getParticipant m uid of
        None \<Rightarrow> m
      | Some p \<Rightarrow>
          (let m1 = log_change m (upd_isHandRaised u) (isHandRaised p) HandRaise HandLower
                      uid (username p) now;
               m2 = log_change m1 (upd_isScreenSharing u) (isScreenSharing p) ScreenShareStart
                      ScreenShareStop uid (username p) now;
               m3 = log_change m2 (upd_isAudioMuted u) (isAudioMuted p) Mute Unmute
                      uid (username p) now;
               m4 = log_change m3 (upd_isVideoOff u) (isVideoOff p) VideoOff VideoOn
                      uid (username p) now
           in m4\<lparr>participants := assign_first uid u (participants m4)\<rparr>))"

definition addMessage :: "meeting \<Rightarrow> message \<Rightarrow> meeting" where
  "addMessage m msg = m\<lparr>messages := push_bounded 500 (messages m) msg\<rparr>"

definition getChatHistory :: "meeting \<Rightarrow> message list" where
  "getChatHistory m = messages m"

text \<open>
  \<^verbatim>\<open>addTranscript(userId, username, text, isFinal = true)\<close>: the default applies when
  the argument is \<^verbatim>\<open>undefined\<close> (\<open>None\<close>).
\<close>

definition addTranscript :: "meeting \<Rightarrow> jsstring \<Rightarrow> jsstring \<Rightarrow> jsstring option \<Rightarrow> bool option
    \<Rightarrow> timestamp \<Rightarrow> meeting" where
  "addTranscript m uid uname text isFinal now =
     (case text of
        None \<Rightarrow> m
      | Some t \<Rightarrow>
          if t = [] \<or> trim t = [] then m
          else m\<lparr>transcript := push_bounded 1000 (transcript m)
                  \<lparr>tr_userId = uid, tr_username = uname, tr_text = trim t,
                   tr_isFinal = (case isFinal of None \<Rightarrow> True | Some b \<Rightarrow> b),
                   tr_timestamp = now\<rparr>\<rparr>)"

definition getTranscript :: "meeting \<Rightarrow> transcript_entry list" where
  "getTranscript m = transcript m"

section \<open>The meeting store and the relay transport\<close>

text \<open>
  The durable store as the meeting store reads it: \<^verbatim>\<open>MeetingModel.findOne\<close> throws,
  finds nothing, or returns a document, of which \<^verbatim>\<open>getMeeting\<close> reads the fields below.
\<close>

datatype db_status = StatusActive | StatusEnded

record db_meeting =
  db_title :: jsstring
  db_host_userId :: jsstring
  db_host_username :: jsstring
  db_isActive :: bool
  db_status :: db_status

datatype db_result = DbError | DbNull | DbDoc db_meeting

record session =
  s_userId :: jsstring
  s_username :: jsstring
  s_meetingId :: jsstring

text \<open>
  The server: the \<^verbatim>\<open>meetings\<close> map of the store, the durable store, the
  \<^verbatim>\<open>activeSockets\<close> map of the socket handler, and the transport's connected sockets
  and rooms (a room name is a meeting id, or a socket id for the socket's own room).
  A handler runs to completion on one event before the next one is handled.
\<close>

record server_state =
  meetings :: "jsstring \<rightharpoonup> meeting"
  db :: "jsstring \<Rightarrow> db_result"
  activeSockets :: "jsstring \<rightharpoonup> session"
  sockets :: "jsstring set"
  rooms :: "jsstring \<Rightarrow> jsstring set"

definition init_state :: "(jsstring \<Rightarrow> db_result) \<Rightarrow> server_state" where
  "init_state d = \<lparr>meetings = Map.empty, db = d, activeSockets = Map.empty, sockets = {},
                    rooms = (\<lambda>r. {})\<rparr>"

text \<open>
  \<^verbatim>\<open>MeetingStore.getMeeting\<close>: the resident meeting, or a fresh shell with no
  participants made from an active document of the durable store and kept in memory.
\<close>

definition getMeeting :: "server_state \<Rightarrow> jsstring \<Rightarrow> timestamp \<Rightarrow> server_state \<times> meeting option" where
  "getMeeting st mid now =
     (case meetings st mid of
        Some m \<Rightarrow> (st, Some m)
      | None \<Rightarrow>
          (case db st mid of
             DbDoc d \<Rightarrow>
               if db_isActive d \<or> db_status d = StatusActive then
                 (let m = new_meeting mid (db_host_userId d) (db_host_username d) (db_title d) now
                  in (st\<lparr>meetings := (meetings st)(mid \<mapsto> m)\<rparr>, Some m))
               else (st, None)
           | DbNull \<Rightarrow> (st, None)
           | DbError \<Rightarrow> (st, None)))"

definition createMeeting :: "server_state \<Rightarrow> jsstring \<Rightarrow> jsstring \<Rightarrow> jsstring \<Rightarrow> jsstring
    \<Rightarrow> timestamp \<Rightarrow> server_state" where
  "createMeeting st mid h hname t now =
     st\<lparr>meetings := (meetings st)(mid \<mapsto> new_meeting mid h hname t now)\<rparr>"

text \<open>
  A handler mutates the meeting object it got from the store; the object is the one
  stored under the meeting id.
\<close>

definition put_meeting :: "server_state \<Rightarrow> jsstring \<Rightarrow> meeting \<Rightarrow> server_state" where
  "put_meeting st mid m = st\<lparr>meetings := (meetings st)(mid \<mapsto> m)\<rparr>"

definition socket_join :: "server_state \<Rightarrow> jsstring \<Rightarrow> jsstring \<Rightarrow> server_state" where
  "socket_join st sid room = st\<lparr>rooms := (rooms st)(room := insert sid (rooms st room))\<rparr>"

definition socket_leave :: "server_state \<Rightarrow> jsstring \<Rightarrow> jsstring \<Rightarrow> server_state" where
  "socket_leave st sid room = st\<lparr>rooms := (rooms st)(room := rooms st room - {sid})\<rparr>"

subsection \<open>What the server sends\<close>

record participant_info =
  pi_socketId :: "jsstring option"
  pi_userId :: jsstring
  pi_username :: jsstring
  pi_isAudioMuted :: bool
  pi_isVideoOff :: bool
  pi_isHandRaised :: bool
  pi_isScreenSharing :: bool

record vote_data =
  vd_meetingId :: jsstring
  vd_pollId :: "rat option"
  vd_userId :: jsstring
  vd_username :: jsstring
  vd_optionIndex :: int

datatype payload =
    ErrorMessage jsstring
  | JoinedMeeting jsstring "participant_info list" jsstring "message list"
  | UserJoined jsstring jsstring jsstring timestamp
  | UserDisconnected jsstring jsstring jsstring
  | UserLeft jsstring jsstring
  | ChatMessage message
  | FileShared message
  | PollCreated message
  | PollVoted vote_data
  | ChatHistory "message list"
  | TranscriptUpdate jsstring jsstring "jsstring option" "bool option" timestamp
  | AudioToggled jsstring bool
  | VideoToggled jsstring bool
  | HandRaised jsstring bool
  | ScreenShareUpdate jsstring bool
  | ForceMute
  | KickedFromMeeting
  | UserKicked jsstring jsstring jsstring

text \<open>
  \<^verbatim>\<open>socket.emit\<close> answers the socket itself, \<^verbatim>\<open>io.to(room).emit\<close> reaches a room,
  \<^verbatim>\<open>socket.to(room).emit\<close> reaches the room without the sending socket.
\<close>

datatype target = Direct jsstring | ToRoom jsstring | ToRoomExcept jsstring jsstring

type_synonym emission = "target \<times> payload"

section \<open>The socket handler\<close>

subsection \<open>Joining, leaving, disconnecting\<close>

definition info :: "participant \<Rightarrow> participant_info" where
  "info p = \<lparr>pi_socketId = socketId p, pi_userId = userId p, pi_username = username p,
              pi_isAudioMuted = isAudioMuted p, pi_isVideoOff = isVideoOff p,
              pi_isHandRaised = isHandRaised p, pi_isScreenSharing = isScreenSharing p\<rparr>"

text \<open>
  The reconnect branch of \<^verbatim>\<open>join-meeting\<close>: the user is known under another, non-empty
  socket id. The old socket's entry of \<^verbatim>\<open>activeSockets\<close> is deleted and the others in
  the room are told that the old socket is gone.
\<close>

definition reconnect_cleanup :: "server_state \<Rightarrow> jsstring \<Rightarrow> jsstring \<Rightarrow> jsstring \<Rightarrow> jsstring
    \<Rightarrow> participant \<Rightarrow> server_state \<times> emission list" where
  "reconnect_cleanup st sid mid uid uname existing =
     (case socketId existing of
        Some old \<Rightarrow>
          if old \<noteq> [] \<and> old \<noteq> sid then
            (st\<lparr>activeSockets := (activeSockets st)(old := None)\<rparr>,
             [(ToRoomExcept mid sid, UserDisconnected uid uname old)])
          else (st, [])
      | None \<Rightarrow> (st, []))"

definition join_meeting :: "server_state \<Rightarrow> jsstring \<Rightarrow> jsstring \<Rightarrow> jsstring \<Rightarrow> jsstring
    \<Rightarrow> timestamp \<Rightarrow> server_state \<times> emission list" where
  "join_meeting st sid mid uid uname now =
     (case getMeeting st mid now of
        (st1, None) \<Rightarrow> (st1, [(Direct sid, ErrorMessage (js ''Meeting not found''))])
      | (st1, Some m) \<Rightarrow>
          if \<not> isActive m then (st1, [(Direct sid, ErrorMessage (js ''Meeting not found''))])
          else
            (let st2 = (socket_join st1 sid mid)
                         \<lparr>activeSockets := (activeSockets st1)
                            (sid \<mapsto> \<lparr>s_userId = uid, s_username = uname, s_meetingId = mid\<rparr>)\<rparr>;
                 (st3, out, m') =
                   (case getParticipant m uid of
                      None \<Rightarrow> (st2, [], addParticipant m uid uname (Some sid) now)
                    | Some existing \<Rightarrow>
                        (let (st', notice) = reconnect_cleanup st2 sid mid uid uname existing
                         in (st', notice,
                             updateParticipant m uid (no_updates\<lparr>upd_socketId := Some sid\<rparr>) now)));
                 ps = map info (filter (\<lambda>p. truthy (socketId p) \<and> socketId p \<noteq> Some sid)
                                  (participants m'))
             in (put_meeting st3 mid m',
                 out @ [(Direct sid, JoinedMeeting mid ps sid (getChatHistory m')),
                        (ToRoomExcept mid sid, UserJoined uid uname sid now)])))"

definition leave_meeting :: "server_state \<Rightarrow> jsstring \<Rightarrow> jsstring \<Rightarrow> jsstring \<Rightarrow> timestamp
    \<Rightarrow> server_state \<times> emission list" where
  "leave_meeting st sid mid uid now =
     (case getMeeting st mid now of
        (st1, mo) \<Rightarrow>
          (let (st2, out) =
                 (case mo of
                    Some m \<Rightarrow> (put_meeting st1 mid (removeParticipant m uid now),
                               [(ToRoomExcept mid sid, UserLeft uid sid)])
                  | None \<Rightarrow> (st1, []))
           in ((socket_leave st2 sid mid)\<lparr>activeSockets := (activeSockets st2)(sid := None)\<rparr>,
               out)))"

text \<open>A new connection: the transport registers the socket and puts it in its own room.\<close>

definition connection :: "server_state \<Rightarrow> jsstring \<Rightarrow> server_state" where
  "connection st sid = (socket_join st sid sid)\<lparr>sockets := insert sid (sockets st)\<rparr>"

text \<open>
  The transport closes a socket by taking it out of every room and out of the connected
  sockets; then the \<^verbatim>\<open>disconnect\<close> handler runs.
\<close>

definition transport_close :: "server_state \<Rightarrow> jsstring \<Rightarrow> server_state" where
  "transport_close st sid = st\<lparr>sockets := sockets st - {sid}, rooms := (\<lambda>r. rooms st r - {sid})\<rparr>"

definition disconnect_handler :: "server_state \<Rightarrow> jsstring \<Rightarrow> timestamp
    \<Rightarrow> server_state \<times> emission list" where
  "disconnect_handler st sid now =
     (case activeSockets st sid of
        None \<Rightarrow> (st, [])
      | Some session \<Rightarrow>
          (case getMeeting st (s_meetingId session) now of
             (st1, mo) \<Rightarrow>
               (st1\<lparr>activeSockets := (activeSockets st1)(sid := None)\<rparr>,
                (case mo of
                   Some m \<Rightarrow> [(ToRoomExcept (s_meetingId session) sid,
                                UserDisconnected (s_userId session) (s_username session) sid)]
                 | None \<Rightarrow> []))))"

definition disconnect :: "server_state \<Rightarrow> jsstring \<Rightarrow> timestamp \<Rightarrow> server_state \<times> emission list" where
  "disconnect st sid now = disconnect_handler (transport_close st sid) sid now"

subsection \<open>Chat, files and polls\<close>

definition chat_message :: "server_state \<Rightarrow> jsstring \<Rightarrow> jsstring \<Rightarrow> jsstring \<Rightarrow> jsstring
    \<Rightarrow> rat \<Rightarrow> timestamp \<Rightarrow> server_state \<times> emission list" where
  "chat_message st mid uid uname text fresh now =
     (case getMeeting st mid now of
        (st1, None) \<Rightarrow> (st1, [])
      | (st1, Some m) \<Rightarrow>
          (let msg = \<lparr>msg_id = Some fresh, msg_type = TextType, msg_meetingId = mid,
                      msg_userId = uid, msg_username = uname, msg_text = text, msg_options = []\<rparr>
           in (put_meeting st1 mid (addMessage m msg), [(ToRoom mid, ChatMessage msg)])))"

definition file_share :: "server_state \<Rightarrow> jsstring \<Rightarrow> jsstring \<Rightarrow> jsstring \<Rightarrow> jsstring
    \<Rightarrow> rat \<Rightarrow> timestamp \<Rightarrow> server_state \<times> emission list" where
  "file_share st mid uid uname file fresh now =
     (case getMeeting st mid now of
        (st1, None) \<Rightarrow> (st1, [])
      | (st1, Some m) \<Rightarrow>
          (let fileMsg = \<lparr>msg_id = Some fresh, msg_type = FileType, msg_meetingId = mid,
                          msg_userId = uid, msg_username = uname, msg_text = file,
                          msg_options = []\<rparr>
           in (put_meeting st1 mid (addMessage m fileMsg), [(ToRoom mid, FileShared fileMsg)])))"

text \<open>
  A poll option as the client sends it: a string, or an object whose \<^verbatim>\<open>text\<close>,
  \<^verbatim>\<open>votes\<close> and \<^verbatim>\<open>count\<close> may be missing.
\<close>

datatype option_input =
  OptionString jsstring | OptionObject "jsstring option" "jsstring list option" "nat option"

fun formatOption :: "option_input \<Rightarrow> poll_option" where
  "formatOption (OptionString s) = \<lparr>opt_text = OptText s, votes = [], count = 0\<rparr>"
| "formatOption (OptionObject t vs c) =
     \<lparr>opt_text = (case t of Some x \<Rightarrow> if x \<noteq> [] then OptText x else OptSelf | None \<Rightarrow> OptSelf),
      votes = (case vs of Some v \<Rightarrow> v | None \<Rightarrow> []),
      count = (case c of Some n \<Rightarrow> n | None \<Rightarrow> 0)\<rparr>"

definition create_poll :: "server_state \<Rightarrow> rat option \<Rightarrow> jsstring \<Rightarrow> jsstring \<Rightarrow> jsstring \<Rightarrow> jsstring
    \<Rightarrow> option_input list \<Rightarrow> timestamp \<Rightarrow> server_state \<times> emission list" where
  "create_poll st pid mid uid uname question opts now =
     (case getMeeting st mid now of
        (st1, None) \<Rightarrow> (st1, [])
      | (st1, Some m) \<Rightarrow>
          (let pollMsg = \<lparr>msg_id = pid, msg_type = PollType, msg_meetingId = mid,
                          msg_userId = uid, msg_username = uname, msg_text = question,
                          msg_options = map formatOption opts\<rparr>
           in (put_meeting st1 mid (addMessage m pollMsg), [(ToRoom mid, PollCreated pollMsg)])))"

fun findIndex :: "('a \<Rightarrow> bool) \<Rightarrow> 'a list \<Rightarrow> nat option" where
  "findIndex P [] = None"
| "findIndex P (x # xs) = (if P x then Some 0 else map_option Suc (findIndex P xs))"

text \<open>
  \<^verbatim>\<open>poll.options.map((opt, idx) => ...)\<close>, with \<open>idx\<close> the index of the head of the
  list: the user's vote is removed from every option and added to the option whose
  index is \<^verbatim>\<open>=== data.optionIndex\<close>.
\<close>

fun vote_options :: "jsstring \<Rightarrow> int \<Rightarrow> nat \<Rightarrow> poll_option list \<Rightarrow> poll_option list" where
  "vote_options uid oi idx [] = []"
| "vote_options uid oi idx (opt # opts) =
     (let vs = filter (\<lambda>v. v \<noteq> uid) (votes opt);
          vs' = (if int idx = oi then vs @ [uid] else vs)
      in opt\<lparr>votes := vs', count := length vs'\<rparr>) # vote_options uid oi (Suc idx) opts"

definition is_poll :: "rat option \<Rightarrow> message \<Rightarrow> bool" where
  "is_poll pid msg = (msg_id msg = pid \<and> msg_type msg = PollType)"

definition vote_in_meeting :: "meeting \<Rightarrow> vote_data \<Rightarrow> meeting" where
  "vote_in_meeting m vd =
     (case findIndex (is_poll (vd_pollId vd)) (getChatHistory m) of
        None \<Rightarrow> m
      | Some pollIndex \<Rightarrow>
          (let poll = messages m ! pollIndex
           in m\<lparr>messages := (messages m)
                  [pollIndex := poll\<lparr>msg_options :=
                      vote_options (vd_userId vd) (vd_optionIndex vd) 0 (msg_options poll)\<rparr>]\<rparr>))"

definition vote_poll :: "server_state \<Rightarrow> vote_data \<Rightarrow> timestamp \<Rightarrow> server_state \<times> emission list" where
  "vote_poll st vd now =
     (case getMeeting st (vd_meetingId vd) now of
        (st1, mo) \<Rightarrow>
          ((case mo of
              Some m \<Rightarrow> put_meeting st1 (vd_meetingId vd) (vote_in_meeting m vd)
            | None \<Rightarrow> st1),
           [(ToRoom (vd_meetingId vd), PollVoted vd)]))"

definition get_chat_history :: "server_state \<Rightarrow> jsstring \<Rightarrow> jsstring \<Rightarrow> timestamp
    \<Rightarrow> server_state \<times> emission list" where
  "get_chat_history st sid mid now =
     (case getMeeting st mid now of
        (st1, None) \<Rightarrow> (st1, [])
      | (st1, Some m) \<Rightarrow> (st1, [(Direct sid, ChatHistory (getChatHistory m))]))"

subsection \<open>Transcript\<close>

definition transcript_handler :: "server_state \<Rightarrow> jsstring \<Rightarrow> jsstring \<Rightarrow> jsstring \<Rightarrow> jsstring
    \<Rightarrow> jsstring option \<Rightarrow> bool option \<Rightarrow> timestamp \<Rightarrow> server_state \<times> emission list" where
  "transcript_handler st sid mid uid uname text isFinal now =
     (case getMeeting st mid now of
        (st1, None) \<Rightarrow> (st1, [])
      | (st1, Some m) \<Rightarrow>
          (case text of
             None \<Rightarrow> (st1, [])
           | Some t \<Rightarrow>
               if t \<noteq> [] \<and> trim t \<noteq> [] then
                 (put_meeting st1 mid (addTranscript m uid uname text isFinal now),
                  [(ToRoomExcept mid sid, TranscriptUpdate uid uname text isFinal now)])
               else (st1, [])))"

subsection \<open>Participant flags\<close>

definition toggle_audio :: "server_state \<Rightarrow> jsstring \<Rightarrow> jsstring \<Rightarrow> jsstring \<Rightarrow> bool \<Rightarrow> timestamp
    \<Rightarrow> server_state \<times> emission list" where
  "toggle_audio st sid mid uid b now =
     (case getMeeting st mid now of
        (st1, None) \<Rightarrow> (st1, [])
      | (st1, Some m) \<Rightarrow>
          (put_meeting st1 mid (updateParticipant m uid (no_updates\<lparr>upd_isAudioMuted := Some b\<rparr>) now),
           [(ToRoomExcept mid sid, AudioToggled uid b)]))"

definition toggle_video :: "server_state \<Rightarrow> jsstring \<Rightarrow> jsstring \<Rightarrow> jsstring \<Rightarrow> bool \<Rightarrow> timestamp
    \<Rightarrow> server_state \<times> emission list" where
  "toggle_video st sid mid uid b now =
     (case getMeeting st mid now of
        (st1, None) \<Rightarrow> (st1, [])
      | (st1, Some m) \<Rightarrow>
          (put_meeting st1 mid (updateParticipant m uid (no_updates\<lparr>upd_isVideoOff := Some b\<rparr>) now),
           [(ToRoomExcept mid sid, VideoToggled uid b)]))"

definition raise_hand :: "server_state \<Rightarrow> jsstring \<Rightarrow> jsstring \<Rightarrow> jsstring \<Rightarrow> bool \<Rightarrow> timestamp
    \<Rightarrow> server_state \<times> emission list" where
  "raise_hand st sid mid uid b now =
     (case getMeeting st mid now of
        (st1, None) \<Rightarrow> (st1, [])
      | (st1, Some m) \<Rightarrow>
          (put_meeting st1 mid (updateParticipant m uid (no_updates\<lparr>upd_isHandRaised := Some b\<rparr>) now),
           [(ToRoomExcept mid sid, HandRaised uid b)]))"

definition screen_share :: "server_state \<Rightarrow> jsstring \<Rightarrow> jsstring \<Rightarrow> jsstring \<Rightarrow> bool \<Rightarrow> timestamp
    \<Rightarrow> server_state \<times> emission list" where
  "screen_share st sid mid uid b now =
     (case getMeeting st mid now of
        (st1, None) \<Rightarrow> (st1, [])
      | (st1, Some m) \<Rightarrow>
          (put_meeting st1 mid (updateParticipant m uid (no_updates\<lparr>upd_isScreenSharing := Some b\<rparr>) now),
           [(ToRoomExcept mid sid, ScreenShareUpdate uid b)]))"

subsection \<open>Host controls\<close>

definition host_mute_participant :: "server_state \<Rightarrow> jsstring \<Rightarrow> jsstring \<Rightarrow> jsstring \<Rightarrow> jsstring
    \<Rightarrow> timestamp \<Rightarrow> server_state \<times> emission list" where
  "host_mute_participant st mid hostUserId targetUserId targetSocketId now =
     (case getMeeting st mid now of
        (st1, None) \<Rightarrow> (st1, [])
      | (st1, Some m) \<Rightarrow>
          if host m = hostUserId then
            (put_meeting st1 mid
               (updateParticipant m targetUserId (no_updates\<lparr>upd_isAudioMuted := Some True\<rparr>) now),
             [(ToRoom targetSocketId, ForceMute), (ToRoom mid, AudioToggled targetUserId True)])
          else (st1, []))"

definition host_kick_participant :: "server_state \<Rightarrow> jsstring \<Rightarrow> jsstring \<Rightarrow> jsstring \<Rightarrow> jsstring
    \<Rightarrow> jsstring \<Rightarrow> timestamp \<Rightarrow> server_state \<times> emission list" where
  "host_kick_participant st mid hostUserId targetUserId targetSocketId targetUsername now =
     (case getMeeting st mid now of
        (st1, None) \<Rightarrow> (st1, [])
      | (st1, Some m) \<Rightarrow>
          if host m = hostUserId then
            (let st2 = (if targetSocketId \<in> sockets st1 then socket_leave st1 targetSocketId mid
                        else st1)
             in (put_meeting st2 mid (removeParticipant m targetUserId now),
                 [(ToRoom targetSocketId, KickedFromMeeting),
                  (ToRoom mid, UserKicked targetUserId targetUsername targetSocketId)]))
          else (st1, []))"

section \<open>The HTTP meeting controller\<close>

text \<open>
  The controller's effect on the meeting store, with the status of the response. Of the
  durable store only the fields that \<^verbatim>\<open>getMeeting\<close> reads back are kept; \<open>save_ok\<close>
  tells whether the document could be saved.
\<close>

definition http_createMeeting :: "server_state \<Rightarrow> jsstring \<Rightarrow> jsstring \<Rightarrow> jsstring \<Rightarrow> jsstring option
    \<Rightarrow> bool \<Rightarrow> timestamp \<Rightarrow> server_state \<times> nat" where
  "http_createMeeting st mid h hname t save_ok now =
     (let t' = (case t of
                  Some x \<Rightarrow> if x \<noteq> [] then x else hname @ [0x27] @ js ''s Meeting''
                | None \<Rightarrow> hname @ [0x27] @ js ''s Meeting'');
          st1 = createMeeting st mid h hname t' now
      in if save_ok then
           (st1\<lparr>db := (db st1)(mid := DbDoc \<lparr>db_title = t', db_host_userId = h,
                   db_host_username = hname, db_isActive = True, db_status = StatusActive\<rparr>)\<rparr>, 200)
         else (st1, 500))"

definition http_getMeeting :: "server_state \<Rightarrow> jsstring \<Rightarrow> timestamp \<Rightarrow> server_state \<times> nat" where
  "http_getMeeting st mid now =
     (case getMeeting st mid now of
        (st1, None) \<Rightarrow> (st1, 404)
      | (st1, Some m) \<Rightarrow> if \<not> isActive m then (st1, 404) else (st1, 200))"

definition http_joinMeeting :: "server_state \<Rightarrow> jsstring \<Rightarrow> jsstring \<Rightarrow> jsstring \<Rightarrow> timestamp
    \<Rightarrow> server_state \<times> nat" where
  "http_joinMeeting st mid uid uname now =
     (case getMeeting st mid now of
        (st1, None) \<Rightarrow> (st1, 404)
      | (st1, Some m) \<Rightarrow>
          if \<not> isActive m then (st1, 404)
          else (put_meeting st1 mid (addParticipant m uid uname None now),
                if db st1 mid = DbError then 500 else 200))"

definition http_leaveMeeting :: "server_state \<Rightarrow> jsstring \<Rightarrow> jsstring \<Rightarrow> timestamp
    \<Rightarrow> server_state \<times> nat" where
  "http_leaveMeeting st mid uid now =
     (case getMeeting st mid now of
        (st1, None) \<Rightarrow> (st1, if db st1 mid = DbError then 500 else 200)
      | (st1, Some m) \<Rightarrow>
          (put_meeting st1 mid (removeParticipant m uid now),
           if db st1 mid = DbError then 500 else 200))"

definition http_endMeeting :: "server_state \<Rightarrow> jsstring \<Rightarrow> jsstring \<Rightarrow> bool \<Rightarrow> timestamp
    \<Rightarrow> server_state \<times> nat" where
  "http_endMeeting st mid uid save_ok now =
     (case getMeeting st mid now of
        (st1, None) \<Rightarrow> (st1, 404)
      | (st1, Some m) \<Rightarrow>
          if host m \<noteq> uid then (st1, 403)
          else
            (let st2 = put_meeting st1 mid (m\<lparr>isActive := False, endedAt := Some now\<rparr>)
             in (case db st2 mid of
                   DbError \<Rightarrow> (st2, 500)
                 | DbNull \<Rightarrow> (st2, 200)
                 | DbDoc d \<Rightarrow>
                     if save_ok then
                       (st2\<lparr>db := (db st2)(mid := DbDoc (d\<lparr>db_isActive := False,
                               db_status := StatusEnded\<rparr>))\<rparr>, 200)
                     else (st2, 500))))"

section \<open>Events\<close>

datatype event =
    Connection jsstring
  | Disconnect jsstring
  | JoinMeeting jsstring jsstring jsstring jsstring
  | LeaveMeeting jsstring jsstring jsstring
  | ChatMessageEv jsstring jsstring jsstring jsstring rat
  | FileShare jsstring jsstring jsstring jsstring rat
  | CreatePoll "rat option" jsstring jsstring jsstring jsstring "option_input list"
  | VotePoll vote_data
  | GetChatHistory jsstring jsstring
  | Transcript jsstring jsstring jsstring jsstring "jsstring option" "bool option"
  | ToggleAudio jsstring jsstring jsstring bool
  | ToggleVideo jsstring jsstring jsstring bool
  | RaiseHand jsstring jsstring jsstring bool
  | ScreenShare jsstring jsstring jsstring bool
  | HostMuteParticipant jsstring jsstring jsstring jsstring
  | HostKickParticipant jsstring jsstring jsstring jsstring jsstring
  | HttpCreateMeeting jsstring jsstring jsstring "jsstring option" bool
  | HttpGetMeeting jsstring
  | HttpJoinMeeting jsstring jsstring jsstring
  | HttpLeaveMeeting jsstring jsstring
  | HttpEndMeeting jsstring jsstring bool

text \<open>
  One event, handled at clock value \<open>now\<close>. The relay of offers, answers and ICE
  candidates, the typing notices and the transcription notices read and write no
  state and are not events here; the summary controller only reads the store.
\<close>

fun handle :: "server_state \<Rightarrow> timestamp \<times> event \<Rightarrow> server_state \<times> emission list" where
  "handle st (now, Connection sid) = (connection st sid, [])"
| "handle st (now, Disconnect sid) = disconnect st sid now"
| "handle st (now, JoinMeeting sid mid uid uname) = join_meeting st sid mid uid uname now"
| "handle st (now, LeaveMeeting sid mid uid) = leave_meeting st sid mid uid now"
| "handle st (now, ChatMessageEv mid uid uname text fresh) = chat_message st mid uid uname text fresh now"
| "handle st (now, FileShare mid uid uname file fresh) = file_share st mid uid uname file fresh now"
| "handle st (now, CreatePoll pid mid uid uname q opts) = create_poll st pid mid uid uname q opts now"
| "handle st (now, VotePoll vd) = vote_poll st vd now"
| "handle st (now, GetChatHistory sid mid) = get_chat_history st sid mid now"
| "handle st (now, Transcript sid mid uid uname text isFinal) =
     transcript_handler st sid mid uid uname text isFinal now"
| "handle st (now, ToggleAudio sid mid uid b) = toggle_audio st sid mid uid b now"
| "handle st (now, ToggleVideo sid mid uid b) = toggle_video st sid mid uid b now"
| "handle st (now, RaiseHand sid mid uid b) = raise_hand st sid mid uid b now"
| "handle st (now, ScreenShare sid mid uid b) = screen_share st sid mid uid b now"
| "handle st (now, HostMuteParticipant mid h tu ts) = host_mute_participant st mid h tu ts now"
| "handle st (now, HostKickParticipant mid h tu ts tn) = host_kick_participant st mid h tu ts tn now"
| "handle st (now, HttpCreateMeeting mid h hname t ok) = (fst (http_createMeeting st mid h hname t ok now), [])"
| "handle st (now, HttpGetMeeting mid) = (fst (http_getMeeting st mid now), [])"
| "handle st (now, HttpJoinMeeting mid uid uname) = (fst (http_joinMeeting st mid uid uname now), [])"
| "handle st (now, HttpLeaveMeeting mid uid) = (fst (http_leaveMeeting st mid uid now), [])"
| "handle st (now, HttpEndMeeting mid uid ok) = (fst (http_endMeeting st mid uid ok now), [])"

fun run :: "server_state \<Rightarrow> (timestamp \<times> event) list \<Rightarrow> server_state" where
  "run st [] = st"
| "run st (e # es) = run (fst (handle st e)) es"

section \<open>The client: peer connections of the video call component\<close>

text \<open>
  The browser's \<^verbatim>\<open>RTCPeerConnection\<close> is kept as its signalling state, the
  \<^verbatim>\<open>isInitiator\<close> argument that its callbacks captured, and the calls made on it.
  A call is made only in a signalling state that permits it, and moves the state as
  the WebRTC state machine does: a rollback leaves \<^verbatim>\<open>have-local-offer\<close> for
  \<^verbatim>\<open>stable\<close>, a remote offer leads to \<^verbatim>\<open>have-remote-offer\<close>, the local answer back to
  \<^verbatim>\<open>stable\<close>.
\<close>

datatype signaling_state =
  Stable | HaveLocalOffer | HaveRemoteOffer | HaveLocalPranswer | HaveRemotePranswer | Closed

type_synonym candidate = nat

datatype pc_call =
  SetLocalRollback | SetRemoteOffer | AddIceCandidate candidate | CreateAnswer | SetLocalAnswer

record peer_connection =
  signalingState :: signaling_state
  isInitiator :: bool
  calls :: "pc_call list"

datatype client_message = AnswerTo jsstring

text \<open>
  \<open>socket_id\<close> is \<^verbatim>\<open>socket.id\<close> (\<open>None\<close> while \<^verbatim>\<open>undefined\<close>), \<open>localStream\<close> tells
  whether \<^verbatim>\<open>localStreamRef.current\<close> is set, \<open>rtc_ok\<close> whether the browser constructs
  a peer connection without throwing, \<open>timers\<close> are the \<^verbatim>\<open>createOffer(remoteId, false)\<close>
  calls scheduled with \<^verbatim>\<open>setTimeout\<close>, \<open>sent\<close> what the client emitted.
\<close>

record client_state =
  socket_id :: "jsstring option"
  my_userId :: jsstring
  my_username :: jsstring
  localStream :: bool
  rtc_ok :: bool
  peerConnections :: "jsstring \<rightharpoonup> peer_connection"
  pendingIceCandidates :: "jsstring \<rightharpoonup> candidate list"
  client_participants :: "participant_info list"
  timers :: "jsstring list"
  sent :: "client_message list"

text \<open>\<^verbatim>\<open>const shouldInitiate = localId < remoteId\<close>; an undefined local id is not smaller.\<close>

definition shouldInitiate :: "jsstring option \<Rightarrow> jsstring \<Rightarrow> bool" where
  "shouldInitiate localId remoteId =
     (case localId of Some l \<Rightarrow> js_lt l remoteId | None \<Rightarrow> False)"

definition createPeerConnection :: "client_state \<Rightarrow> jsstring \<Rightarrow> bool
    \<Rightarrow> client_state \<times> peer_connection option" where
  "createPeerConnection st remoteId initiator =
     (if rtc_ok st then
        (let pc = \<lparr>signalingState = Stable, isInitiator = initiator, calls = []\<rparr>
         in (st\<lparr>peerConnections := (peerConnections st)(remoteId \<mapsto> pc),
                timers := timers st @ (if initiator then [remoteId] else [])\<rparr>, Some pc))
      else (st, None))"

definition cleanupPeerConnection :: "client_state \<Rightarrow> jsstring \<Rightarrow> client_state" where
  "cleanupPeerConnection st remoteId =
     st\<lparr>peerConnections := (peerConnections st)(remoteId := None),
        pendingIceCandidates := (pendingIceCandidates st)(remoteId := None)\<rparr>"

text \<open>
  The body of the loop over the roster in the \<^verbatim>\<open>joined-meeting\<close> handler, and the
  same steps at the end of the \<^verbatim>\<open>user-joined\<close> handler.
\<close>

definition connect_peer :: "client_state \<Rightarrow> jsstring option \<Rightarrow> client_state" where
  "connect_peer st remote =
     (case remote of
        None \<Rightarrow> st
      | Some remoteId \<Rightarrow>
          if remoteId = [] then st
          else if Some remoteId = socket_id st then st
          else
            (let hasPc = (peerConnections st remoteId \<noteq> None);
                 initiate = shouldInitiate (socket_id st) remoteId
             in if \<not> hasPc then
                  (let st1 = fst (createPeerConnection st remoteId initiate)
                   in if initiate then st1\<lparr>timers := timers st1 @ [remoteId]\<rparr> else st1)
                else st))"

fun deduplicate :: "jsstring list \<Rightarrow> participant_info list \<Rightarrow> participant_info list" where
  "deduplicate seen [] = []"
| "deduplicate seen (p # ps) =
     (if pi_userId p = [] \<or> pi_userId p \<in> set seen then deduplicate seen ps
      else p # deduplicate (pi_userId p # seen) ps)"

definition joined_meeting :: "client_state \<Rightarrow> participant_info list \<Rightarrow> client_state" where
  "joined_meeting st roster =
     (let self = \<lparr>pi_socketId = socket_id st, pi_userId = my_userId st,
                  pi_username = my_username st, pi_isAudioMuted = False, pi_isVideoOff = False,
                  pi_isHandRaised = False, pi_isScreenSharing = False\<rparr>;
          st1 = st\<lparr>client_participants := self # deduplicate [my_userId st] roster\<rparr>
      in if localStream st1 then foldl connect_peer st1 (map pi_socketId roster) else st1)"

definition joined_entry :: "jsstring \<Rightarrow> jsstring \<Rightarrow> jsstring option \<Rightarrow> participant_info" where
  "joined_entry uid uname sid =
     \<lparr>pi_socketId = sid, pi_userId = uid, pi_username = uname, pi_isAudioMuted = False,
      pi_isVideoOff = False, pi_isHandRaised = False, pi_isScreenSharing = False\<rparr>"

definition user_joined :: "client_state \<Rightarrow> jsstring \<Rightarrow> jsstring \<Rightarrow> jsstring option \<Rightarrow> client_state" where
  "user_joined st uid uname sid =
     (let prev = client_participants st;
          st1 = (case find (\<lambda>p. pi_userId p = uid) prev of
                   Some existingByUser \<Rightarrow>
                     if pi_socketId existingByUser \<noteq> sid then
                       (case pi_socketId existingByUser of
                          Some old \<Rightarrow> cleanupPeerConnection st old
                        | None \<Rightarrow> st)
                       \<lparr>client_participants :=
                          filter (\<lambda>p. pi_userId p \<noteq> uid) prev @ [joined_entry uid uname sid]\<rparr>
                     else st
                 | None \<Rightarrow> st\<lparr>client_participants := prev @ [joined_entry uid uname sid]\<rparr>)
      in if localStream st1 then connect_peer st1 sid else st1)"

subsection \<open>Handling an offer\<close>

text \<open>
  \<^verbatim>\<open>processQueuedIceCandidates\<close>: the candidates queued for the sender are added to the
  connection and the queue is deleted; an empty or missing queue is left as it is.
\<close>

definition processQueuedIceCandidates :: "client_state \<Rightarrow> jsstring \<Rightarrow> peer_connection
    \<Rightarrow> client_state \<times> peer_connection" where
  "processQueuedIceCandidates st senderId pc =
     (case pendingIceCandidates st senderId of
        None \<Rightarrow> (st, pc)
      | Some cs \<Rightarrow>
          if cs = [] then (st, pc)
          else (st\<lparr>pendingIceCandidates := (pendingIceCandidates st)(senderId := None)\<rparr>,
                pc\<lparr>calls := calls pc @ map AddIceCandidate cs\<rparr>))"

text \<open>
  The \<^verbatim>\<open>try\<close> block of \<^verbatim>\<open>handleOffer\<close>. \<open>ok\<close> tells whether the browser accepts the
  offer and produces an answer; if it throws, the connection is cleaned up.
\<close>

definition answer_offer :: "client_state \<Rightarrow> jsstring \<Rightarrow> peer_connection \<Rightarrow> bool \<Rightarrow> client_state" where
  "answer_offer st senderId pc ok =
     (if signalingState pc = Stable \<or> signalingState pc = HaveRemoteOffer then
        if ok then
          (let pc1 = pc\<lparr>signalingState := HaveRemoteOffer, calls := calls pc @ [SetRemoteOffer]\<rparr>;
               (st1, pc2) = processQueuedIceCandidates st senderId pc1;
               pc3 = pc2\<lparr>signalingState := Stable, calls := calls pc2 @ [CreateAnswer, SetLocalAnswer]\<rparr>
           in st1\<lparr>peerConnections := (peerConnections st1)(senderId \<mapsto> pc3),
                  sent := sent st1 @ [AnswerTo senderId]\<rparr>)
        else cleanupPeerConnection st senderId
      else st)"

definition offer_with :: "client_state \<Rightarrow> jsstring \<Rightarrow> peer_connection option \<Rightarrow> bool \<Rightarrow> client_state" where
  "offer_with st senderId pco ok =
     (case pco of
        Some pc \<Rightarrow> answer_offer st senderId pc ok
      | None \<Rightarrow>
          (case createPeerConnection st senderId False of
             (st1, None) \<Rightarrow> st1
           | (st1, Some pc) \<Rightarrow> answer_offer st1 senderId pc ok))"

text \<open>
  \<^verbatim>\<open>if (localId && localId < senderId)\<close>: the peer that rolls its own offer back when
  both sides have sent one.
\<close>

definition polite :: "jsstring option \<Rightarrow> jsstring \<Rightarrow> bool" where
  "polite localId senderId =
     (case localId of Some l \<Rightarrow> l \<noteq> [] \<and> js_lt l senderId | None \<Rightarrow> False)"

definition handleOffer :: "client_state \<Rightarrow> jsstring \<Rightarrow> bool \<Rightarrow> client_state" where
  "handleOffer st senderId ok =
     (case peerConnections st senderId of
        None \<Rightarrow> offer_with st senderId None ok
      | Some pc \<Rightarrow>
          if signalingState pc = HaveLocalOffer \<and> \<not> polite (socket_id st) senderId then st
          else
            (let pc1 = (if signalingState pc = HaveLocalOffer
                        then pc\<lparr>signalingState := Stable, calls := calls pc @ [SetLocalRollback]\<rparr>
                        else pc);
                 st1 = st\<lparr>peerConnections := (peerConnections st)(senderId \<mapsto> pc1)\<rparr>
             in if signalingState pc1 \<noteq> Stable \<and> signalingState pc1 \<noteq> HaveRemoteOffer
                then offer_with (cleanupPeerConnection st1 senderId) senderId None ok
                else offer_with st1 senderId (Some pc1) ok))"

section \<open>Invariants of the meeting store\<close>

text \<open>A property of meetings holds of the store when it holds of every resident meeting.\<close>

definition all_meetings :: "(meeting \<Rightarrow> bool) \<Rightarrow> server_state \<Rightarrow> bool" where
  "all_meetings P st = (\<forall>mid m. meetings st mid = Some m \<longrightarrow> P m)"

definition unique_users :: "meeting \<Rightarrow> bool" where
  "unique_users m = distinct (map userId (participants m))"

definition logs_bounded :: "meeting \<Rightarrow> bool" where
  "logs_bounded m =
     (length (messages m) \<le> 500 \<and> length (transcript m) \<le> 1000 \<and> length (activities m) \<le> 500)"

section \<open>Formatting the transcript for a summary\<close>


text \<open>Every socket registered in \<^verbatim>\<open>activeSockets\<close> is bound to a resident meeting.\<close>

definition sessions_resident :: "server_state \<Rightarrow> bool" where
  "sessions_resident st =
     (\<forall>sid s. activeSockets st sid = Some s \<longrightarrow> meetings st (s_meetingId s) \<noteq> None)"

section \<open>Example inputs\<close>

text \<open>Concrete clients, rosters and meetings on which the properties below are run.\<close>

definition example_client :: "jsstring \<Rightarrow> (jsstring \<rightharpoonup> peer_connection) \<Rightarrow> client_state" where
  "example_client localId pcs =
     \<lparr>socket_id = Some localId, my_userId = js ''u-local'', my_username = js ''Local'',
      localStream = True, rtc_ok = True, peerConnections = pcs,
      pendingIceCandidates = Map.empty, client_participants = [], timers = [], sent = []\<rparr>"

definition pending_offer :: peer_connection where
  "pending_offer = \<lparr>signalingState = HaveLocalOffer, isInitiator = True, calls = []\<rparr>"

definition glare_client :: "jsstring \<Rightarrow> jsstring \<Rightarrow> client_state" where
  "glare_client localId remoteId = example_client localId [remoteId \<mapsto> pending_offer]"

definition example_roster :: "jsstring \<Rightarrow> participant_info list" where
  "example_roster remoteId = [joined_entry (js ''u-remote'') (js ''Remote'') (Some remoteId)]"

definition joined_events :: "(timestamp \<times> event) list" where
  "joined_events =
     [(0, HttpCreateMeeting (js ''M'') (js ''h'') (js ''Host'') None True),
      (1, Connection (js ''s1'')),
      (2, JoinMeeting (js ''s1'') (js ''M'') (js ''u1'') (js ''Ann''))]"

definition no_db :: "jsstring \<Rightarrow> db_result" where
  "no_db = (\<lambda>mid. DbNull)"

definition chat_events :: "(timestamp \<times> event) list" where
  "chat_events = joined_events @ [(3, ChatMessageEv (js ''M'') (js ''u1'') (js ''Ann'') (js ''hi'') 1)]"

definition example_message :: "nat \<Rightarrow> message" where
  "example_message n =
     \<lparr>msg_id = Some (of_nat n), msg_type = TextType, msg_meetingId = js ''M'',
      msg_userId = js ''u1'', msg_username = js ''Ann'', msg_text = js ''hi'', msg_options = []\<rparr>"

definition poll_events :: "(timestamp \<times> event) list" where
  "poll_events = joined_events @
     [(3, CreatePoll (Some 7) (js ''M'') (js ''u1'') (js ''Ann'') (js ''q'')
            [OptionString (js ''a''), OptionString (js ''b'')])]"

definition example_vote :: "jsstring \<Rightarrow> int \<Rightarrow> vote_data" where
  "example_vote mid oi =
     \<lparr>vd_meetingId = mid, vd_pollId = Some 7, vd_userId = js ''u1'', vd_username = js ''Ann'',
      vd_optionIndex = oi\<rparr>"

definition vote_sequence :: "(timestamp \<times> vote_data) list" where
  "vote_sequence =
     [(4, example_vote (js ''M'') 0), (5, example_vote (js ''M'') 1), (6, example_vote (js ''M'') 1)]"

definition stale_client :: client_state where
  "stale_client =
     (joined_meeting (example_client (js ''a1'') Map.empty) (example_roster (js ''b2'')))
       \<lparr>socket_id := Some (js ''c3'')\<rparr>"

definition watching_client :: client_state where
  "watching_client =
     (example_client (js ''a1'')
        [js ''b0'' \<mapsto> \<lparr>signalingState = Stable, isInitiator = True, calls = []\<rparr>])
       \<lparr>client_participants := [joined_entry (js ''u-remote'') (js ''Remote'') (Some (js ''b0''))]\<rparr>"

definition two_users_events :: "(timestamp \<times> event) list" where
  "two_users_events =
     [(0, HttpCreateMeeting (js ''M'') (js ''h'') (js ''Host'') None True),
      (1, JoinMeeting (js ''s1'') (js ''M'') (js ''u1'') (js ''Ann'')),
      (2, JoinMeeting (js ''s2'') (js ''M'') (js ''u2'') (js ''Bob''))]"

definition stray_vote_sequence :: "(timestamp \<times> vote_data) list" where
  "stray_vote_sequence = [(4, example_vote (js ''M'') 0), (5, example_vote (js ''M'') 5)]"

definition stray_vote_events :: "(timestamp \<times> event) list" where
  "stray_vote_events =
     poll_events @ [(4, VotePoll (example_vote (js ''M'') 0)), (5, VotePoll (example_vote (js ''M'') 5))]"

section \<open>Properties\<close>

subsection \<open>Choosing the initiator\<close>

lemma js_lt_irrefl: "\<not> js_lt a a"
  by (induction a) auto

lemma js_lt_total: "a \<noteq> b \<Longrightarrow> js_lt a b \<noteq> js_lt b a"
  by (induction a b rule: js_lt.induct) auto

lemma connect_peer_other: "Some r \<noteq> x \<Longrightarrow> peerConnections (connect_peer st x) r = peerConnections st r"
  by (auto simp: connect_peer_def createPeerConnection_def Let_def split: option.splits)

lemma connect_peer_socket_id [simp]: "socket_id (connect_peer st x) = socket_id st"
  by (auto simp: connect_peer_def createPeerConnection_def Let_def split: option.splits)

lemma connect_peer_rtc [simp]: "rtc_ok (connect_peer st x) = rtc_ok st"
  by (auto simp: connect_peer_def createPeerConnection_def Let_def split: option.splits)

lemma connect_peer_keeps: "peerConnections st r = Some pc \<Longrightarrow> peerConnections (connect_peer st x) r = Some pc"
  by (auto simp: connect_peer_def createPeerConnection_def Let_def split: option.splits)

lemma connect_peer_new:
  "rtc_ok st \<Longrightarrow> r \<noteq> [] \<Longrightarrow> Some r \<noteq> socket_id st \<Longrightarrow> peerConnections st r = None \<Longrightarrow>
   peerConnections (connect_peer st (Some r)) r =
     Some \<lparr>signalingState = Stable, isInitiator = shouldInitiate (socket_id st) r, calls = []\<rparr>"
  by (auto simp: connect_peer_def createPeerConnection_def Let_def split: option.splits)

lemma foldl_connect_keeps:
  "peerConnections st r = Some pc \<Longrightarrow> peerConnections (foldl connect_peer st xs) r = Some pc"
  by (induction xs arbitrary: st) (auto simp: connect_peer_keeps)

lemma foldl_connect_socket_id [simp]: "socket_id (foldl connect_peer st xs) = socket_id st"
  by (induction xs arbitrary: st) auto

lemma foldl_connect_new:
  "rtc_ok st \<Longrightarrow> r \<noteq> [] \<Longrightarrow> Some r \<noteq> socket_id st \<Longrightarrow> peerConnections st r = None \<Longrightarrow>
   Some r \<in> set xs \<Longrightarrow>
   peerConnections (foldl connect_peer st xs) r =
     Some \<lparr>signalingState = Stable, isInitiator = shouldInitiate (socket_id st) r, calls = []\<rparr>"
proof (induction xs arbitrary: st)
  case Nil
  then show ?case by simp
next
  case (Cons x xs)
  show ?case
  proof (cases "x = Some r")
    case True
    then show ?thesis
      using Cons.prems by (simp add: connect_peer_new foldl_connect_keeps)
  next
    case False
    then have "peerConnections (connect_peer st x) r = None"
      using Cons.prems by (simp add: connect_peer_other)
    then show ?thesis
      using Cons False by auto
  qed
qed

lemma joined_meeting_pc:
  assumes "localStream st" "rtc_ok st" "b \<noteq> []" "Some b \<noteq> socket_id st"
    "Some b \<in> set (map pi_socketId roster)"
  shows "peerConnections (joined_meeting st roster) b =
     (case peerConnections st b of
        Some pc \<Rightarrow> Some pc
      | None \<Rightarrow> Some \<lparr>signalingState = Stable, isInitiator = shouldInitiate (socket_id st) b, calls = []\<rparr>)"
proof (cases "peerConnections st b")
  case None
  then show ?thesis
    using assms foldl_connect_new[of "st\<lparr>client_participants := cp\<rparr>" b "map pi_socketId roster" for cp]
    by (simp add: joined_meeting_def Let_def)
next
  case (Some pc)
  then show ?thesis
    using assms foldl_connect_keeps[of "st\<lparr>client_participants := cp\<rparr>" b pc "map pi_socketId roster" for cp]
    by (simp add: joined_meeting_def Let_def)
qed

lemma connect_peer_pc:
  assumes "rtc_ok st" "b \<noteq> []" "Some b \<noteq> socket_id st"
  shows "peerConnections (connect_peer st (Some b)) b =
     (case peerConnections st b of
        Some pc \<Rightarrow> Some pc
      | None \<Rightarrow> Some \<lparr>signalingState = Stable, isInitiator = shouldInitiate (socket_id st) b, calls = []\<rparr>)"
  using assms by (auto simp: connect_peer_new connect_peer_keeps split: option.splits)

lemma user_joined_pc:
  assumes "localStream st" "rtc_ok st" "b \<noteq> []" "Some b \<noteq> socket_id st"
  shows "peerConnections (user_joined st uid uname (Some b)) b =
     (case peerConnections st b of
        Some pc \<Rightarrow> Some pc
      | None \<Rightarrow> Some \<lparr>signalingState = Stable, isInitiator = shouldInitiate (socket_id st) b, calls = []\<rparr>)"
proof -
  define st1 where "st1 = (case find (\<lambda>p. pi_userId p = uid) (client_participants st) of
                   Some existingByUser \<Rightarrow>
                     if pi_socketId existingByUser \<noteq> Some b then
                       (case pi_socketId existingByUser of
                          Some old \<Rightarrow> cleanupPeerConnection st old
                        | None \<Rightarrow> st)
                       \<lparr>client_participants :=
                          filter (\<lambda>p. pi_userId p \<noteq> uid) (client_participants st) @ [joined_entry uid uname (Some b)]\<rparr>
                     else st
                 | None \<Rightarrow> st\<lparr>client_participants := (client_participants st) @ [joined_entry uid uname (Some b)]\<rparr>)"
  have a: "peerConnections st1 b = peerConnections st b"
    by (auto simp: st1_def cleanupPeerConnection_def split: option.splits)
  have b: "socket_id st1 = socket_id st" "rtc_ok st1 = rtc_ok st" "localStream st1 = localStream st"
    by (auto simp: st1_def cleanupPeerConnection_def split: option.splits)
  have "user_joined st uid uname (Some b) = (if localStream st1 then connect_peer st1 (Some b) else st1)"
    by (simp add: user_joined_def Let_def st1_def)
  then show ?thesis
    using assms a b connect_peer_pc[of st1 b] by (simp split: option.splits)
qed

lemma timers_connect_peer:
  "set (timers (connect_peer st x)) = set (timers st) \<union>
     (case x of
        None \<Rightarrow> {}
      | Some r \<Rightarrow>
          if r \<noteq> [] \<and> Some r \<noteq> socket_id st \<and> peerConnections st r = None
             \<and> shouldInitiate (socket_id st) r
          then {r} else {})"
  by (auto simp: connect_peer_def createPeerConnection_def Let_def split: option.splits)

lemma timers_foldl_mono: "b \<in> set (timers st) \<Longrightarrow> b \<in> set (timers (foldl connect_peer st xs))"
  by (induction xs arbitrary: st) (auto simp: timers_connect_peer)

lemma timers_foldl_connect:
  "b \<in> set (timers (foldl connect_peer st xs)) \<longleftrightarrow>
     b \<in> set (timers st) \<or>
     (Some b \<in> set xs \<and> b \<noteq> [] \<and> Some b \<noteq> socket_id st \<and> peerConnections st b = None
        \<and> shouldInitiate (socket_id st) b)"
proof (induction xs arbitrary: st)
  case Nil
  then show ?case by simp
next
  case (Cons x xs)
  note ih = Cons.IH[of "connect_peer st x"]
  show ?case
  proof (cases "x = Some b")
    case False
    then have "peerConnections (connect_peer st x) b = peerConnections st b"
      by (simp add: connect_peer_other)
    moreover have "b \<in> set (timers (connect_peer st x)) \<longleftrightarrow> b \<in> set (timers st)"
      using False by (auto simp: timers_connect_peer split: option.splits if_splits)
    ultimately show ?thesis using ih False by auto
  next
    case True
    show ?thesis
    proof (cases "b \<noteq> [] \<and> Some b \<noteq> socket_id st \<and> peerConnections st b = None
        \<and> shouldInitiate (socket_id st) b")
      case go: True
      then have "b \<in> set (timers (connect_peer st x))"
        using \<open>x = Some b\<close> by (simp add: timers_connect_peer)
      then have "b \<in> set (timers (foldl connect_peer (connect_peer st x) xs))"
        by (rule timers_foldl_mono)
      then show ?thesis using go True by simp
    next
      case stop: False
      have t: "b \<in> set (timers (connect_peer st x)) \<longleftrightarrow> b \<in> set (timers st)"
        using stop True by (auto simp: timers_connect_peer)
      have "peerConnections (connect_peer st x) b = None \<Longrightarrow> peerConnections st b = None"
        using connect_peer_keeps[of st b _ x] by (cases "peerConnections st b") auto
      then show ?thesis using ih t stop by auto
    qed
  qed
qed

lemma user_joined_shape:
  "\<exists>st1. user_joined st uid uname sid = (if localStream st then connect_peer st1 sid else st1) \<and>
     socket_id st1 = socket_id st \<and> timers st1 = timers st \<and> rtc_ok st1 = rtc_ok st \<and>
     (\<forall>r. peerConnections st1 r =
       (case find (\<lambda>p. pi_userId p = uid) (client_participants st) of
          Some e \<Rightarrow> if pi_socketId e \<noteq> sid \<and> pi_socketId e = Some r then None
                    else peerConnections st r
        | None \<Rightarrow> peerConnections st r))"
proof -
  define st1 where "st1 = (case find (\<lambda>p. pi_userId p = uid) (client_participants st) of
                   Some existingByUser \<Rightarrow>
                     if pi_socketId existingByUser \<noteq> sid then
                       (case pi_socketId existingByUser of
                          Some old \<Rightarrow> cleanupPeerConnection st old
                        | None \<Rightarrow> st)
                       \<lparr>client_participants :=
                          filter (\<lambda>p. pi_userId p \<noteq> uid) (client_participants st) @ [joined_entry uid uname sid]\<rparr>
                     else st
                 | None \<Rightarrow> st\<lparr>client_participants := (client_participants st) @ [joined_entry uid uname sid]\<rparr>)"
  have l: "localStream st1 = localStream st"
    by (auto simp: st1_def cleanupPeerConnection_def split: option.splits)
  have "user_joined st uid uname sid = (if localStream st then connect_peer st1 sid else st1)"
    using l by (simp add: user_joined_def Let_def st1_def)
  moreover have "socket_id st1 = socket_id st" "timers st1 = timers st" "rtc_ok st1 = rtc_ok st"
    by (auto simp: st1_def cleanupPeerConnection_def split: option.splits)
  moreover have "\<forall>r. peerConnections st1 r =
       (case find (\<lambda>p. pi_userId p = uid) (client_participants st) of
          Some e \<Rightarrow> if pi_socketId e \<noteq> sid \<and> pi_socketId e = Some r then None
                    else peerConnections st r
        | None \<Rightarrow> peerConnections st r)"
    by (auto simp: st1_def cleanupPeerConnection_def split: option.splits)
  ultimately show ?thesis by blast
qed

text \<open>
  C1, as the code has it. For two distinct connection ids, exactly one of the two sides
  computes that it initiates: the side whose id is smaller. The \<^verbatim>\<open>joined-meeting\<close> and
  \<^verbatim>\<open>user-joined\<close> handlers compare the socket's present id with the id they were just
  told: a peer connection they create carries the result of this comparison, and the
  offer is scheduled exactly when the result is true. When a remote user comes back
  under a new id, the connection to the old id is removed and the new one is compared
  afresh. A connection that exists under the remote id is kept with the flag it was
  created with, and no offer is scheduled for it.
\<close>

theorem initiator_deterministic:
  "a \<noteq> b \<Longrightarrow>
   (shouldInitiate (Some a) b \<longleftrightarrow> \<not> shouldInitiate (Some b) a) \<and>
   (socket_id st = Some a \<and> localStream st \<and> rtc_ok st \<and> b \<noteq> [] \<longrightarrow>
      (Some b \<in> set (map pi_socketId roster) \<longrightarrow>
         peerConnections (joined_meeting st roster) b =
           (case peerConnections st b of
              Some pc \<Rightarrow> Some pc
            | None \<Rightarrow> Some \<lparr>signalingState = Stable, isInitiator = js_lt a b, calls = []\<rparr>) \<and>
         (b \<in> set (timers (joined_meeting st roster)) \<longleftrightarrow>
            b \<in> set (timers st) \<or> (peerConnections st b = None \<and> js_lt a b))) \<and>
      peerConnections (user_joined st uid uname (Some b)) b =
        (case peerConnections st b of
           Some pc \<Rightarrow> Some pc
         | None \<Rightarrow> Some \<lparr>signalingState = Stable, isInitiator = js_lt a b, calls = []\<rparr>) \<and>
      (b \<in> set (timers (user_joined st uid uname (Some b))) \<longleftrightarrow>
         b \<in> set (timers st) \<or> (peerConnections st b = None \<and> js_lt a b)) \<and>
      (find (\<lambda>p. pi_userId p = uid) (client_participants st) = Some e \<and>
         pi_socketId e = Some old \<and> old \<noteq> b \<longrightarrow>
         peerConnections (user_joined st uid uname (Some b)) old = None))"
proof (intro conjI impI)
  assume ab: "a \<noteq> b"
  show "shouldInitiate (Some a) b \<longleftrightarrow> \<not> shouldInitiate (Some b) a"
    using js_lt_total[OF ab] by (simp add: shouldInitiate_def)
next
  assume ab: "a \<noteq> b" and h: "socket_id st = Some a \<and> localStream st \<and> rtc_ok st \<and> b \<noteq> []"
    and r: "Some b \<in> set (map pi_socketId roster)"
  show "peerConnections (joined_meeting st roster) b =
           (case peerConnections st b of
              Some pc \<Rightarrow> Some pc
            | None \<Rightarrow> Some \<lparr>signalingState = Stable, isInitiator = js_lt a b, calls = []\<rparr>)"
    using joined_meeting_pc[of st b roster] ab h r by (simp add: shouldInitiate_def split: option.splits)
  have "joined_meeting st roster = foldl connect_peer
      (st\<lparr>client_participants := \<lparr>pi_socketId = socket_id st, pi_userId = my_userId st,
                  pi_username = my_username st, pi_isAudioMuted = False, pi_isVideoOff = False,
                  pi_isHandRaised = False, pi_isScreenSharing = False\<rparr>
                # deduplicate [my_userId st] roster\<rparr>) (map pi_socketId roster)"
    using h by (simp add: joined_meeting_def Let_def)
  then show "b \<in> set (timers (joined_meeting st roster)) \<longleftrightarrow>
            b \<in> set (timers st) \<or> (peerConnections st b = None \<and> js_lt a b)"
    using ab h r by (simp add: timers_foldl_connect shouldInitiate_def)
next
  assume ab: "a \<noteq> b" and h: "socket_id st = Some a \<and> localStream st \<and> rtc_ok st \<and> b \<noteq> []"
  show "peerConnections (user_joined st uid uname (Some b)) b =
        (case peerConnections st b of
           Some pc \<Rightarrow> Some pc
         | None \<Rightarrow> Some \<lparr>signalingState = Stable, isInitiator = js_lt a b, calls = []\<rparr>)"
    using user_joined_pc[of st b uid uname] ab h by (simp add: shouldInitiate_def split: option.splits)
  obtain st1 where x: "user_joined st uid uname (Some b)
        = (if localStream st then connect_peer st1 (Some b) else st1) \<and>
     socket_id st1 = socket_id st \<and> timers st1 = timers st \<and> rtc_ok st1 = rtc_ok st \<and>
     (\<forall>r. peerConnections st1 r =
       (case find (\<lambda>p. pi_userId p = uid) (client_participants st) of
          Some e \<Rightarrow> if pi_socketId e \<noteq> Some b \<and> pi_socketId e = Some r then None
                    else peerConnections st r
        | None \<Rightarrow> peerConnections st r))"
    using user_joined_shape[of st uid uname "Some b"] ..
  then have s: "user_joined st uid uname (Some b) = (if localStream st then connect_peer st1 (Some b) else st1)"
    "socket_id st1 = socket_id st" "timers st1 = timers st"
    and pcs: "\<And>r. peerConnections st1 r =
       (case find (\<lambda>p. pi_userId p = uid) (client_participants st) of
          Some e \<Rightarrow> if pi_socketId e \<noteq> Some b \<and> pi_socketId e = Some r then None
                    else peerConnections st r
        | None \<Rightarrow> peerConnections st r)"
    by simp_all
  have pb: "peerConnections st1 b = peerConnections st b"
    by (auto simp: pcs split: option.splits)
  show "b \<in> set (timers (user_joined st uid uname (Some b))) \<longleftrightarrow>
         b \<in> set (timers st) \<or> (peerConnections st b = None \<and> js_lt a b)"
    using ab h s pb by (auto simp: timers_connect_peer shouldInitiate_def)
  assume o: "find (\<lambda>p. pi_userId p = uid) (client_participants st) = Some e \<and>
         pi_socketId e = Some old \<and> old \<noteq> b"
  then have "peerConnections st1 old = None" by (simp add: pcs)
  then show "peerConnections (user_joined st uid uname (Some b)) old = None"
    using h s o connect_peer_other[of old "Some b" st1] by simp
qed

theorem initiator_deterministic_witness:
  "js ''a1'' \<noteq> js ''b2'' \<and>
   shouldInitiate (Some (js ''a1'')) (js ''b2'') \<and> \<not> shouldInitiate (Some (js ''b2'')) (js ''a1'') \<and>
   peerConnections (joined_meeting watching_client (example_roster (js ''b2''))) (js ''b2'')
     = Some \<lparr>signalingState = Stable, isInitiator = True, calls = []\<rparr> \<and>
   js ''b2'' \<in> set (timers (joined_meeting watching_client (example_roster (js ''b2'')))) \<and>
   peerConnections (user_joined watching_client (js ''u-remote'') (js ''Remote'') (Some (js ''b2''))) (js ''b2'')
     = Some \<lparr>signalingState = Stable, isInitiator = True, calls = []\<rparr> \<and>
   js ''b2'' \<in> set (timers (user_joined watching_client (js ''u-remote'') (js ''Remote'') (Some (js ''b2'')))) \<and>
   peerConnections (user_joined watching_client (js ''u-remote'') (js ''Remote'') (Some (js ''b2''))) (js ''b0'')
     = None"
  using initiator_deterministic[of "js ''a1''" "js ''b2''" watching_client
      "example_roster (js ''b2'')" "js ''u-remote''" "js ''Remote''"
      "joined_entry (js ''u-remote'') (js ''Remote'') (Some (js ''b0''))" "js ''b0''"]
  by (simp add: js_def watching_client_def example_client_def example_roster_def joined_entry_def
      shouldInitiate_def)

text \<open>
  C1 as stated fails in its last clause. A client that created its connection to \<open>b2\<close>
  while its own id was \<open>a1\<close> gets the new id \<open>c3\<close> and is sent the roster again: the
  connection is kept and still says that this side initiates, although \<open>c3\<close> is not
  smaller than \<open>b2\<close>; the client \<open>b2\<close>, told of \<open>c3\<close>, creates a connection that says
  the same of its side.
\<close>

theorem stale_initiator_counterexample:
  "map_option isInitiator
     (peerConnections (joined_meeting stale_client (example_roster (js ''b2''))) (js ''b2''))
     = Some True \<and>
   socket_id (joined_meeting stale_client (example_roster (js ''b2''))) = Some (js ''c3'') \<and>
   \<not> shouldInitiate (Some (js ''c3'')) (js ''b2'') \<and>
   map_option isInitiator
     (peerConnections (user_joined (example_client (js ''b2'') Map.empty) (js ''u-local'') (js ''Local'')
        (Some (js ''c3''))) (js ''c3'')) = Some True"
  by (simp add: stale_client_def js_def example_client_def example_roster_def joined_entry_def
      shouldInitiate_def joined_meeting_def user_joined_def connect_peer_def createPeerConnection_def
      Let_def)

subsection \<open>Simultaneous offers\<close>

lemma handleOffer_rollback:
  assumes "peerConnections st r = Some pc" "signalingState pc = HaveLocalOffer"
    "polite (socket_id st) r"
  shows "peerConnections (handleOffer st r True) r =
           Some (pc\<lparr>signalingState := Stable,
                    calls := calls pc @ [SetLocalRollback, SetRemoteOffer]
                      @ map AddIceCandidate (case pendingIceCandidates st r of Some cs \<Rightarrow> cs | None \<Rightarrow> [])
                      @ [CreateAnswer, SetLocalAnswer]\<rparr>)"
    and "sent (handleOffer st r True) = sent st @ [AnswerTo r]"
  using assms
  by (auto simp: handleOffer_def offer_with_def answer_offer_def processQueuedIceCandidates_def
      Let_def split: option.splits)

lemma handleOffer_ignore:
  assumes "peerConnections st r = Some pc" "signalingState pc = HaveLocalOffer"
    "\<not> polite (socket_id st) r"
  shows "handleOffer st r ok = st"
  using assms by (simp add: handleOffer_def)

text \<open>
  C2, as the code has it. An offer arrives while the connection to its sender is in
  \<^verbatim>\<open>have-local-offer\<close>. The side with the smaller connection id, which is the
  deterministic initiator, rolls its own offer back and answers the incoming offer; the
  side with the larger id ignores the incoming offer and changes nothing.
\<close>

theorem glare_resolution:
  "peerConnections st r = Some pc \<Longrightarrow> signalingState pc = HaveLocalOffer \<Longrightarrow>
   socket_id st = Some l \<Longrightarrow> l \<noteq> [] \<Longrightarrow>
   (shouldInitiate (Some l) r \<longrightarrow>
      peerConnections (handleOffer st r True) r =
        Some (pc\<lparr>signalingState := Stable,
                 calls := calls pc @ [SetLocalRollback, SetRemoteOffer]
                   @ map AddIceCandidate (case pendingIceCandidates st r of Some cs \<Rightarrow> cs | None \<Rightarrow> [])
                   @ [CreateAnswer, SetLocalAnswer]\<rparr>) \<and>
      sent (handleOffer st r True) = sent st @ [AnswerTo r]) \<and>
   (\<not> shouldInitiate (Some l) r \<longrightarrow> handleOffer st r ok = st)"
  using handleOffer_rollback[of st r pc] handleOffer_ignore[of st r pc ok]
  by (simp add: polite_def shouldInitiate_def)

theorem glare_resolution_witness:
  "shouldInitiate (Some (js ''a1'')) (js ''b2'') \<and>
   peerConnections (handleOffer (example_client (js ''a1'') [js ''b2'' \<mapsto> pending_offer]) (js ''b2'') True) (js ''b2'')
     = Some \<lparr>signalingState = Stable, isInitiator = True,
             calls = [SetLocalRollback, SetRemoteOffer, CreateAnswer, SetLocalAnswer]\<rparr> \<and>
   sent (handleOffer (example_client (js ''a1'') [js ''b2'' \<mapsto> pending_offer]) (js ''b2'') True)
     = [AnswerTo (js ''b2'')]"
  using glare_resolution[of "example_client (js ''a1'') [js ''b2'' \<mapsto> pending_offer]" "js ''b2''"
      pending_offer "js ''a1''" True]
  by (simp add: js_def example_client_def pending_offer_def shouldInitiate_def)

text \<open>
  C2 as stated fails: with local id \<open>b2\<close> and sender \<open>a1\<close> the local side is not the
  initiator, has an offer pending, and yet neither rolls back nor answers.
\<close>

theorem glare_non_initiator_counterexample:
  "\<not> shouldInitiate (Some (js ''b2'')) (js ''a1'') \<and>
   map_option signalingState (peerConnections (glare_client (js ''b2'') (js ''a1'')) (js ''a1''))
     = Some HaveLocalOffer \<and>
   handleOffer (glare_client (js ''b2'') (js ''a1'')) (js ''a1'') True
     = glare_client (js ''b2'') (js ''a1'')"
  by (simp add: js_def glare_client_def example_client_def pending_offer_def shouldInitiate_def
      handleOffer_def polite_def)

subsection \<open>What the operations of a meeting keep\<close>

lemma participants_addActivity [simp]:
  "participants (addActivity m ty uid uname now) = participants m"
  by (simp add: addActivity_def)

lemma participants_log_change [simp]:
  "participants (log_change m new old on off uid uname now) = participants m"
  by (simp add: log_change_def split: option.splits)

lemma userId_assign [simp]: "userId (assign p u) = userId p"
  by (simp add: assign_def)

lemma map_userId_assign_first [simp]:
  "map userId (assign_first uid u ps) = map userId ps"
  by (induction ps) auto

lemma unique_users_new: "unique_users (new_meeting mid h hname t now)"
  by (simp add: unique_users_def new_meeting_def)

lemma unique_users_addParticipant: "unique_users m \<Longrightarrow> unique_users (addParticipant m uid uname sid now)"
  by (auto simp: unique_users_def addParticipant_def Let_def distinct_map_filter)

lemma unique_users_removeParticipant: "unique_users m \<Longrightarrow> unique_users (removeParticipant m uid now)"
  by (auto simp: unique_users_def removeParticipant_def Let_def distinct_map_filter split: option.splits)

lemma map_userId_updateParticipant [simp]:
  "map userId (participants (updateParticipant m uid u now)) = map userId (participants m)"
  by (simp add: updateParticipant_def Let_def split: option.splits)

lemma unique_users_updateParticipant: "unique_users m \<Longrightarrow> unique_users (updateParticipant m uid u now)"
  by (simp add: unique_users_def)

lemma unique_users_addMessage: "unique_users m \<Longrightarrow> unique_users (addMessage m msg)"
  by (simp add: unique_users_def addMessage_def)

lemma unique_users_addTranscript: "unique_users m \<Longrightarrow> unique_users (addTranscript m uid uname text isFinal now)"
  by (simp add: unique_users_def addTranscript_def split: option.splits)

lemma unique_users_vote: "unique_users m \<Longrightarrow> unique_users (vote_in_meeting m vd)"
  by (simp add: unique_users_def vote_in_meeting_def Let_def split: option.splits)

lemma unique_users_end: "unique_users m \<Longrightarrow> unique_users (m\<lparr>isActive := False, endedAt := Some now\<rparr>)"
  by (simp add: unique_users_def)

lemma length_push_bounded: "length xs \<le> cap \<Longrightarrow> length (push_bounded cap xs x) \<le> cap"
  by (simp add: push_bounded_def Let_def)

lemma push_bounded_drop:
  assumes "length xs \<le> cap"
  shows "push_bounded cap xs x = drop (length (xs @ [x]) - cap) (xs @ [x])"
proof (cases "length xs = cap")
  case True
  then have "length (xs @ [x]) - cap = Suc 0" by simp
  then have "drop (length (xs @ [x]) - cap) (xs @ [x]) = tl (xs @ [x])"
    by (simp only: drop_Suc drop_0)
  then show ?thesis using True by (simp add: push_bounded_def Let_def)
next
  case False
  then have "length (xs @ [x]) - cap = 0" using assms by simp
  then have "drop (length (xs @ [x]) - cap) (xs @ [x]) = xs @ [x]"
    by (simp only: drop_0)
  then show ?thesis using False assms by (simp add: push_bounded_def Let_def)
qed

lemma drop_snoc_step:
  assumes "n = length ws"
  shows "drop (length (drop (n - cap) ws @ [y]) - cap) (drop (n - cap) ws @ [y])
           = drop (Suc n - cap) (ws @ [y])"
proof (cases "n < cap")
  case True
  then show ?thesis using assms by simp
next
  case False
  then have k: "Suc n - cap = Suc (n - cap)" by simp
  have "length (drop (n - cap) ws @ [y]) - cap = Suc 0"
    using False assms by simp
  moreover have "drop (n - cap) ws @ [y] = drop (n - cap) (ws @ [y])"
    using assms by simp
  ultimately have "drop (length (drop (n - cap) ws @ [y]) - cap) (drop (n - cap) ws @ [y])
      = drop (Suc 0) (drop (n - cap) (ws @ [y]))"
    by (simp only:)
  also have "\<dots> = drop (Suc (n - cap)) (ws @ [y])"
    by (simp only: drop_drop add_Suc add_0)
  finally show ?thesis by (simp only: k)
qed

lemma foldl_push_bounded:
  assumes "length xs \<le> cap"
  shows "foldl (push_bounded cap) xs ys = drop (length (xs @ ys) - cap) (xs @ ys)"
proof (induction ys rule: rev_induct)
  case Nil
  show ?case using assms by simp
next
  case (snoc y ys)
  define ws where "ws = xs @ ys"
  define zs where "zs = drop (length ws - cap) ws"
  have len: "length zs \<le> cap" by (simp add: zs_def)
  have "foldl (push_bounded cap) xs (ys @ [y]) = push_bounded cap zs y"
    using snoc by (simp add: zs_def ws_def)
  also have "\<dots> = drop (length (zs @ [y]) - cap) (zs @ [y])"
    by (rule push_bounded_drop[OF len])
  also have "\<dots> = drop (Suc (length ws) - cap) (ws @ [y])"
    unfolding zs_def by (rule drop_snoc_step) simp
  finally show ?case by (simp add: ws_def)
qed

lemma logs_bounded_new: "logs_bounded (new_meeting mid h hname t now)"
  by (simp add: logs_bounded_def new_meeting_def)

lemma logs_bounded_addActivity: "logs_bounded m \<Longrightarrow> logs_bounded (addActivity m ty uid uname now)"
  by (simp add: logs_bounded_def addActivity_def length_push_bounded)

lemma logs_bounded_participants [simp]: "logs_bounded (m\<lparr>participants := ps\<rparr>) = logs_bounded m"
  by (simp add: logs_bounded_def)

lemma logs_bounded_log_change:
  "logs_bounded m \<Longrightarrow> logs_bounded (log_change m new old on off uid uname now)"
  by (simp add: log_change_def logs_bounded_addActivity split: option.splits)

lemma logs_bounded_addParticipant: "logs_bounded m \<Longrightarrow> logs_bounded (addParticipant m uid uname sid now)"
  by (simp add: addParticipant_def Let_def logs_bounded_addActivity)

lemma logs_bounded_removeParticipant: "logs_bounded m \<Longrightarrow> logs_bounded (removeParticipant m uid now)"
  by (simp add: removeParticipant_def Let_def logs_bounded_addActivity split: option.splits)

lemma logs_bounded_updateParticipant: "logs_bounded m \<Longrightarrow> logs_bounded (updateParticipant m uid u now)"
  by (simp add: updateParticipant_def Let_def logs_bounded_log_change split: option.splits)

lemma logs_bounded_addMessage: "logs_bounded m \<Longrightarrow> logs_bounded (addMessage m msg)"
  by (simp add: logs_bounded_def addMessage_def length_push_bounded)

lemma logs_bounded_addTranscript: "logs_bounded m \<Longrightarrow> logs_bounded (addTranscript m uid uname text isFinal now)"
  by (simp add: logs_bounded_def addTranscript_def length_push_bounded split: option.splits)

lemma logs_bounded_vote: "logs_bounded m \<Longrightarrow> logs_bounded (vote_in_meeting m vd)"
  by (simp add: logs_bounded_def vote_in_meeting_def Let_def split: option.splits)

lemma logs_bounded_end: "logs_bounded m \<Longrightarrow> logs_bounded (m\<lparr>isActive := False, endedAt := Some now\<rparr>)"
  by (simp add: logs_bounded_def)

subsection \<open>What the handlers keep\<close>

lemma all_meetings_init: "all_meetings P (init_state d)"
  by (simp add: all_meetings_def init_state_def)

lemma all_meetings_put: "all_meetings P st \<Longrightarrow> P m \<Longrightarrow> all_meetings P (put_meeting st mid m)"
  by (simp add: all_meetings_def put_meeting_def)

lemma all_meetings_cong: "meetings st' = meetings st \<Longrightarrow> all_meetings P st' = all_meetings P st"
  by (simp add: all_meetings_def)

lemma getMeeting_keeps:
  assumes "\<And>mid h hname t now. P (new_meeting mid h hname t now)"
    and "all_meetings P st" and "getMeeting st mid now = (st1, mo)"
  shows "all_meetings P st1 \<and> (\<forall>m. mo = Some m \<longrightarrow> P m)"
  using assms
  by (auto simp: getMeeting_def all_meetings_def Let_def split: option.splits db_result.splits if_splits)

lemma meetings_reconnect_cleanup [simp]:
  "meetings (fst (reconnect_cleanup st sid mid uid uname existing)) = meetings st"
  by (simp add: reconnect_cleanup_def split: option.splits)

lemma meetings_join_meeting:
  assumes "getMeeting st mid now = (st1, mo)"
  shows "meetings (fst (join_meeting st sid mid uid uname now)) =
     (case mo of
        None \<Rightarrow> meetings st1
      | Some m \<Rightarrow>
          if \<not> isActive m then meetings st1
          else (meetings st1)(mid \<mapsto>
            (case getParticipant m uid of
               None \<Rightarrow> addParticipant m uid uname (Some sid) now
             | Some existing \<Rightarrow> updateParticipant m uid (no_updates\<lparr>upd_socketId := Some sid\<rparr>) now)))"
proof (cases mo)
  case None
  then show ?thesis using assms by (simp add: join_meeting_def)
next
  case (Some m)
  show ?thesis
  proof (cases "getParticipant m uid")
    case None
    then show ?thesis using assms Some
      by (simp add: join_meeting_def put_meeting_def socket_join_def)
  next
    case (Some existing)
    define st2 where "st2 = (socket_join st1 sid mid)
                         \<lparr>activeSockets := (activeSockets st1)
                            (sid \<mapsto> \<lparr>s_userId = uid, s_username = uname, s_meetingId = mid\<rparr>)\<rparr>"
    obtain st' notice where r: "reconnect_cleanup st2 sid mid uid uname existing = (st', notice)"
      by force
    have "meetings (fst (reconnect_cleanup st2 sid mid uid uname existing)) = meetings st2"
      by simp
    moreover have "meetings st2 = meetings st1"
      by (simp add: st2_def socket_join_def)
    ultimately have "meetings st' = meetings st1"
      by (simp add: r)
    then show ?thesis using assms \<open>mo = Some m\<close> Some r
      by (simp add: join_meeting_def put_meeting_def st2_def[symmetric])
  qed
qed

text \<open>
  Every handler looks a meeting up and then, under a condition, stores the result of an
  operation on it; nothing else reaches the \<open>meetings\<close> map.
\<close>

lemma lookup_keeps:
  assumes new: "\<And>mid h hname t now. P (new_meeting mid h hname t now)"
    and inv: "all_meetings P st"
    and g: "getMeeting st mid now = (st1, mo)"
    and op: "\<And>m. P m \<Longrightarrow> P (f m)"
    and eq: "meetings st' =
      (case mo of None \<Rightarrow> meetings st1
       | Some m \<Rightarrow> if c m then (meetings st1)(mid \<mapsto> f m) else meetings st1)"
  shows "all_meetings P st'"
proof -
  from getMeeting_keeps[of P, OF new inv g]
  have k: "all_meetings P st1" and km: "\<And>m. mo = Some m \<Longrightarrow> P m" by auto
  show ?thesis
  proof (cases mo)
    case None
    then show ?thesis using k eq by (simp add: all_meetings_def)
  next
    case (Some m)
    then have "P (f m)" using km op by simp
    then show ?thesis using k eq Some by (simp add: all_meetings_def)
  qed
qed

lemma handle_keeps:
  assumes new: "\<And>mid h hname t now. P (new_meeting mid h hname t now)"
    and addP: "\<And>m uid uname sid now. P m \<Longrightarrow> P (addParticipant m uid uname sid now)"
    and remP: "\<And>m uid now. P m \<Longrightarrow> P (removeParticipant m uid now)"
    and updP: "\<And>m uid u now. P m \<Longrightarrow> P (updateParticipant m uid u now)"
    and msgP: "\<And>m msg. P m \<Longrightarrow> P (addMessage m msg)"
    and trP: "\<And>m uid uname text isFinal now. P m \<Longrightarrow> P (addTranscript m uid uname text isFinal now)"
    and voteP: "\<And>m vd. P m \<Longrightarrow> P (vote_in_meeting m vd)"
    and endP: "\<And>m now. P m \<Longrightarrow> P (m\<lparr>isActive := False, endedAt := Some now\<rparr>)"
    and inv: "all_meetings P st"
  shows "all_meetings P (fst (handle st e))"
proof -
  obtain now ev where e: "e = (now, ev)" by (cases e)
  note look = lookup_keeps[of P, OF new]
  show ?thesis
  proof (cases ev)
    case (Connection sid)
    then show ?thesis using inv e
      by (simp add: connection_def socket_join_def all_meetings_def)
  next
    case (Disconnect sid)
    have inv': "all_meetings P (transport_close st sid)"
      using inv by (simp add: transport_close_def all_meetings_def)
    show ?thesis
    proof (cases "activeSockets st sid")
      case None
      then show ?thesis using inv' e Disconnect
        by (simp add: disconnect_def disconnect_handler_def transport_close_def)
    next
      case (Some session)
      obtain st1 mo where g: "getMeeting (transport_close st sid) (s_meetingId session) now = (st1, mo)"
        by force
      have a: "activeSockets (transport_close st sid) sid = Some session"
        using Some by (simp add: transport_close_def)
      show ?thesis unfolding e Disconnect
        by (rule look[OF inv' g, where f = "\<lambda>m. m" and c = "\<lambda>m. False"])
           (simp_all add: disconnect_def disconnect_handler_def g a split: option.splits)
    qed
  next
    case (JoinMeeting sid mid uid uname)
    obtain st1 mo where g: "getMeeting st mid now = (st1, mo)" by force
    show ?thesis unfolding e JoinMeeting
      by (rule look[OF inv g, where c = isActive and f = "\<lambda>m. case getParticipant m uid of
               None \<Rightarrow> addParticipant m uid uname (Some sid) now
             | Some existing \<Rightarrow> updateParticipant m uid (no_updates\<lparr>upd_socketId := Some sid\<rparr>) now"])
         (simp_all add: meetings_join_meeting[OF g] addP updP split: option.splits)
  next
    case (LeaveMeeting sid mid uid)
    obtain st1 mo where g: "getMeeting st mid now = (st1, mo)" by force
    show ?thesis unfolding e LeaveMeeting
      by (rule look[OF inv g, where c = "\<lambda>m. True" and f = "\<lambda>m. removeParticipant m uid now"])
         (simp_all add: leave_meeting_def g remP put_meeting_def socket_leave_def split: option.splits)
  next
    case (ChatMessageEv mid uid uname body fresh)
    obtain st1 mo where g: "getMeeting st mid now = (st1, mo)" by force
    show ?thesis unfolding e ChatMessageEv
      by (rule look[OF inv g, where c = "\<lambda>m. True" and f = "\<lambda>m. addMessage m
            \<lparr>msg_id = Some fresh, msg_type = TextType, msg_meetingId = mid,
                      msg_userId = uid, msg_username = uname, msg_text = body, msg_options = []\<rparr>"])
         (simp_all add: chat_message_def g msgP put_meeting_def Let_def split: option.splits)
  next
    case (FileShare mid uid uname body fresh)
    obtain st1 mo where g: "getMeeting st mid now = (st1, mo)" by force
    show ?thesis unfolding e FileShare
      by (rule look[OF inv g, where c = "\<lambda>m. True" and f = "\<lambda>m. addMessage m
            \<lparr>msg_id = Some fresh, msg_type = FileType, msg_meetingId = mid,
                      msg_userId = uid, msg_username = uname, msg_text = body, msg_options = []\<rparr>"])
         (simp_all add: file_share_def g msgP put_meeting_def Let_def split: option.splits)
  next
    case (CreatePoll pid mid uid uname q opts)
    obtain st1 mo where g: "getMeeting st mid now = (st1, mo)" by force
    show ?thesis unfolding e CreatePoll
      by (rule look[OF inv g, where c = "\<lambda>m. True" and f = "\<lambda>m. addMessage m
            \<lparr>msg_id = pid, msg_type = PollType, msg_meetingId = mid,
                          msg_userId = uid, msg_username = uname, msg_text = q,
                          msg_options = map formatOption opts\<rparr>"])
         (simp_all add: create_poll_def g msgP put_meeting_def Let_def split: option.splits)
  next
    case (VotePoll vd)
    obtain st1 mo where g: "getMeeting st (vd_meetingId vd) now = (st1, mo)" by force
    show ?thesis unfolding e VotePoll
      by (rule look[OF inv g, where c = "\<lambda>m. True" and f = "\<lambda>m. vote_in_meeting m vd"])
         (simp_all add: vote_poll_def g voteP put_meeting_def split: option.splits)
  next
    case (GetChatHistory sid mid)
    obtain st1 mo where g: "getMeeting st mid now = (st1, mo)" by force
    show ?thesis unfolding e GetChatHistory
      by (rule look[OF inv g, where c = "\<lambda>m. False" and f = "\<lambda>m. m"])
         (simp_all add: get_chat_history_def g split: option.splits)
  next
    case (Transcript sid mid uid uname body isFinal)
    obtain st1 mo where g: "getMeeting st mid now = (st1, mo)" by force
    show ?thesis unfolding e Transcript
      by (rule look[OF inv g, where c = "\<lambda>m. case body of None \<Rightarrow> False | Some t \<Rightarrow> t \<noteq> [] \<and> trim t \<noteq> []"
            and f = "\<lambda>m. addTranscript m uid uname body isFinal now"])
         (simp_all add: transcript_handler_def g trP put_meeting_def split: option.splits)
  next
    case (ToggleAudio sid mid uid b)
    obtain st1 mo where g: "getMeeting st mid now = (st1, mo)" by force
    show ?thesis unfolding e ToggleAudio
      by (rule look[OF inv g, where c = "\<lambda>m. True"
            and f = "\<lambda>m. updateParticipant m uid (no_updates\<lparr>upd_isAudioMuted := Some b\<rparr>) now"])
         (simp_all add: toggle_audio_def g updP put_meeting_def split: option.splits)
  next
    case (ToggleVideo sid mid uid b)
    obtain st1 mo where g: "getMeeting st mid now = (st1, mo)" by force
    show ?thesis unfolding e ToggleVideo
      by (rule look[OF inv g, where c = "\<lambda>m. True"
            and f = "\<lambda>m. updateParticipant m uid (no_updates\<lparr>upd_isVideoOff := Some b\<rparr>) now"])
         (simp_all add: toggle_video_def g updP put_meeting_def split: option.splits)
  next
    case (RaiseHand sid mid uid b)
    obtain st1 mo where g: "getMeeting st mid now = (st1, mo)" by force
    show ?thesis unfolding e RaiseHand
      by (rule look[OF inv g, where c = "\<lambda>m. True"
            and f = "\<lambda>m. updateParticipant m uid (no_updates\<lparr>upd_isHandRaised := Some b\<rparr>) now"])
         (simp_all add: raise_hand_def g updP put_meeting_def split: option.splits)
  next
    case (ScreenShare sid mid uid b)
    obtain st1 mo where g: "getMeeting st mid now = (st1, mo)" by force
    show ?thesis unfolding e ScreenShare
      by (rule look[OF inv g, where c = "\<lambda>m. True"
            and f = "\<lambda>m. updateParticipant m uid (no_updates\<lparr>upd_isScreenSharing := Some b\<rparr>) now"])
         (simp_all add: screen_share_def g updP put_meeting_def split: option.splits)
  next
    case (HostMuteParticipant mid h tu ts)
    obtain st1 mo where g: "getMeeting st mid now = (st1, mo)" by force
    show ?thesis unfolding e HostMuteParticipant
      by (rule look[OF inv g, where c = "\<lambda>m. host m = h"
            and f = "\<lambda>m. updateParticipant m tu (no_updates\<lparr>upd_isAudioMuted := Some True\<rparr>) now"])
         (simp_all add: host_mute_participant_def g updP put_meeting_def split: option.splits)
  next
    case (HostKickParticipant mid h tu ts tn)
    obtain st1 mo where g: "getMeeting st mid now = (st1, mo)" by force
    show ?thesis unfolding e HostKickParticipant
      by (rule look[OF inv g, where c = "\<lambda>m. host m = h"
            and f = "\<lambda>m. removeParticipant m tu now"])
         (simp_all add: host_kick_participant_def g remP put_meeting_def socket_leave_def Let_def
            split: option.splits)
  next
    case (HttpCreateMeeting mid h hname t ok)
    then show ?thesis using inv e new
      by (simp add: http_createMeeting_def createMeeting_def all_meetings_def Let_def)
  next
    case (HttpGetMeeting mid)
    obtain st1 mo where g: "getMeeting st mid now = (st1, mo)" by force
    show ?thesis unfolding e HttpGetMeeting
      by (rule look[OF inv g, where c = "\<lambda>m. False" and f = "\<lambda>m. m"])
         (simp_all add: http_getMeeting_def g split: option.splits)
  next
    case (HttpJoinMeeting mid uid uname)
    obtain st1 mo where g: "getMeeting st mid now = (st1, mo)" by force
    show ?thesis unfolding e HttpJoinMeeting
      by (rule look[OF inv g, where c = isActive and f = "\<lambda>m. addParticipant m uid uname None now"])
         (simp_all add: http_joinMeeting_def g addP put_meeting_def split: option.splits)
  next
    case (HttpLeaveMeeting mid uid)
    obtain st1 mo where g: "getMeeting st mid now = (st1, mo)" by force
    show ?thesis unfolding e HttpLeaveMeeting
      by (rule look[OF inv g, where c = "\<lambda>m. True" and f = "\<lambda>m. removeParticipant m uid now"])
         (simp_all add: http_leaveMeeting_def g remP put_meeting_def split: option.splits)
  next
    case (HttpEndMeeting mid uid ok)
    obtain st1 mo where g: "getMeeting st mid now = (st1, mo)" by force
    show ?thesis unfolding e HttpEndMeeting
      by (rule look[OF inv g, where c = "\<lambda>m. host m = uid"
            and f = "\<lambda>m. m\<lparr>isActive := False, endedAt := Some now\<rparr>"])
         (simp_all add: http_endMeeting_def g endP put_meeting_def Let_def
            split: option.splits db_result.splits)
  qed
qed

lemma run_keeps:
  assumes new: "\<And>mid h hname t now. P (new_meeting mid h hname t now)"
    and addP: "\<And>m uid uname sid now. P m \<Longrightarrow> P (addParticipant m uid uname sid now)"
    and remP: "\<And>m uid now. P m \<Longrightarrow> P (removeParticipant m uid now)"
    and updP: "\<And>m uid u now. P m \<Longrightarrow> P (updateParticipant m uid u now)"
    and msgP: "\<And>m msg. P m \<Longrightarrow> P (addMessage m msg)"
    and trP: "\<And>m uid uname text isFinal now. P m \<Longrightarrow> P (addTranscript m uid uname text isFinal now)"
    and voteP: "\<And>m vd. P m \<Longrightarrow> P (vote_in_meeting m vd)"
    and endP: "\<And>m now. P m \<Longrightarrow> P (m\<lparr>isActive := False, endedAt := Some now\<rparr>)"
  shows "all_meetings P st \<Longrightarrow> all_meetings P (run st es)"
proof (induction es arbitrary: st)
  case Nil
  then show ?case by simp
next
  case (Cons e es)
  have "all_meetings P (fst (handle st e))"
    by (rule handle_keeps[of P, OF new addP remP updP msgP trP voteP endP Cons.prems])
  then show ?case using Cons.IH by simp
qed

lemma getMeeting_resident: "meetings st mid = Some m \<Longrightarrow> getMeeting st mid now = (st, Some m)"
  by (simp add: getMeeting_def)

lemma getParticipant_member:
  "uid \<in> set (map userId (participants m)) \<Longrightarrow> \<exists>p. getParticipant m uid = Some p"
  by (cases "getParticipant m uid") (auto simp: getParticipant_def find_None_iff)

lemma length_filter_other_user:
  "distinct (map userId ps) \<Longrightarrow> uid \<in> set (map userId ps) \<Longrightarrow>
   Suc (length (filter (\<lambda>p. userId p \<noteq> uid) ps)) = length ps"
proof (induction ps)
  case Nil
  then show ?case by simp
next
  case (Cons p ps)
  show ?case
  proof (cases "userId p = uid")
    case True
    then have "uid \<notin> set (map userId ps)" using Cons.prems by auto
    then have "filter (\<lambda>p. userId p \<noteq> uid) ps = ps"
      by (auto simp: filter_id_conv)
    then show ?thesis using True by simp
  next
    case False
    then show ?thesis using Cons by auto
  qed
qed

lemma unique_users_reachable: "all_meetings unique_users (run (init_state d) evs)"
  by (rule run_keeps[of unique_users, OF unique_users_new unique_users_addParticipant
        unique_users_removeParticipant unique_users_updateParticipant unique_users_addMessage
        unique_users_addTranscript unique_users_vote unique_users_end all_meetings_init])

lemma updateParticipant_socketId:
  "updateParticipant m uid (no_updates\<lparr>upd_socketId := Some sid\<rparr>) now =
     (case getParticipant m uid of
        None \<Rightarrow> m
      | Some p \<Rightarrow> m\<lparr>participants := assign_first uid (no_updates\<lparr>upd_socketId := Some sid\<rparr>) (participants m)\<rparr>)"
  by (simp add: updateParticipant_def log_change_def no_updates_def Let_def split: option.splits)

lemma assign_socketId: "assign p (no_updates\<lparr>upd_socketId := Some sid\<rparr>) = p\<lparr>socketId := Some sid\<rparr>"
  by (simp add: assign_def no_updates_def)

lemma assign_first_distinct:
  "distinct (map userId ps) \<Longrightarrow>
   assign_first uid u ps = map (\<lambda>p. if userId p = uid then assign p u else p) ps"
proof (induction ps)
  case Nil
  then show ?case by simp
next
  case (Cons p ps)
  show ?case
  proof (cases "userId p = uid")
    case True
    then have "uid \<notin> set (map userId ps)" using Cons.prems by auto
    then have "map (\<lambda>p. if userId p = uid then assign p u else p) ps = ps"
      by (induction ps) auto
    then show ?thesis using True by simp
  next
    case False
    then show ?thesis using Cons by simp
  qed
qed

text \<open>
  C3. In every state the server reaches from the empty store, by any sequence of events
  (socket joins, leaves, disconnects, kicks, the HTTP calls and all the others), no
  meeting lists a user id twice. A join by a user who is listed replaces the entry: after
  a socket join the list is the old one with the new socket id in this user's entry,
  after an HTTP join it is the old one without this user's entry, followed by a fresh
  entry of the user with no socket id. The list of user ids, or its length, is as
  before.
\<close>

theorem unique_participants:
  "meetings (run (init_state d) evs) mid = Some m \<Longrightarrow>
   distinct (map userId (participants m)) \<and>
   (isActive m \<and> uid \<in> set (map userId (participants m)) \<longrightarrow>
      map_option participants
          (meetings (fst (join_meeting (run (init_state d) evs) sid mid uid uname now)) mid)
        = Some (map (\<lambda>p. if userId p = uid then p\<lparr>socketId := Some sid\<rparr> else p) (participants m)) \<and>
      map_option participants
          (meetings (fst (http_joinMeeting (run (init_state d) evs) mid uid uname now)) mid)
        = Some (filter (\<lambda>p. userId p \<noteq> uid) (participants m) @
                [\<lparr>userId = uid, username = uname, socketId = None, isAudioMuted = False,
                  isVideoOff = False, isHandRaised = False, isScreenSharing = False,
                  joinedAt = now\<rparr>]) \<and>
      map_option (\<lambda>m'. map userId (participants m'))
          (meetings (fst (join_meeting (run (init_state d) evs) sid mid uid uname now)) mid)
        = Some (map userId (participants m)) \<and>
      map_option (\<lambda>m'. length (participants m'))
          (meetings (fst (http_joinMeeting (run (init_state d) evs) mid uid uname now)) mid)
        = Some (length (participants m)))"
proof (intro conjI impI)
  assume m: "meetings (run (init_state d) evs) mid = Some m"
  show d: "distinct (map userId (participants m))"
    using unique_users_reachable[of d evs] m by (simp add: all_meetings_def unique_users_def)
  assume h: "isActive m \<and> uid \<in> set (map userId (participants m))"
  then obtain p where p: "getParticipant m uid = Some p"
    using getParticipant_member by blast
  note g = getMeeting_resident[OF m]
  show "map_option participants
          (meetings (fst (join_meeting (run (init_state d) evs) sid mid uid uname now)) mid)
        = Some (map (\<lambda>p. if userId p = uid then p\<lparr>socketId := Some sid\<rparr> else p) (participants m))"
    using h p d
    by (simp add: meetings_join_meeting[OF g] updateParticipant_socketId assign_first_distinct
        assign_socketId)
  show "map_option participants
          (meetings (fst (http_joinMeeting (run (init_state d) evs) mid uid uname now)) mid)
        = Some (filter (\<lambda>p. userId p \<noteq> uid) (participants m) @
                [\<lparr>userId = uid, username = uname, socketId = None, isAudioMuted = False,
                  isVideoOff = False, isHandRaised = False, isScreenSharing = False,
                  joinedAt = now\<rparr>])"
    using h by (simp add: http_joinMeeting_def g put_meeting_def addParticipant_def Let_def)
  show "map_option (\<lambda>m'. map userId (participants m'))
          (meetings (fst (join_meeting (run (init_state d) evs) sid mid uid uname now)) mid)
        = Some (map userId (participants m))"
    using h p by (simp add: meetings_join_meeting[OF g])
  show "map_option (\<lambda>m'. length (participants m'))
          (meetings (fst (http_joinMeeting (run (init_state d) evs) mid uid uname now)) mid)
        = Some (length (participants m))"
    using h length_filter_other_user[OF d, of uid]
    by (simp add: http_joinMeeting_def g put_meeting_def addParticipant_def Let_def)
qed

lemma two_users_state:
  "\<exists>m p1 p2. meetings (run (init_state no_db) two_users_events) (js ''M'') = Some m \<and> isActive m
     \<and> participants m = [p1, p2] \<and> userId p1 = js ''u1'' \<and> userId p2 = js ''u2''
     \<and> socketId p1 = Some (js ''s1'') \<and> socketId p2 = Some (js ''s2'')"
  by (simp add: two_users_events_def no_db_def init_state_def js_def http_createMeeting_def
      createMeeting_def new_meeting_def join_meeting_def getMeeting_def getParticipant_def
      addParticipant_def addActivity_def push_bounded_def
      socket_join_def put_meeting_def Let_def)

theorem unique_participants_witness:
  "map_option (\<lambda>m. map userId (participants m))
     (meetings (run (init_state no_db) two_users_events) (js ''M'')) = Some [js ''u1'', js ''u2''] \<and>
   map_option (\<lambda>m. map socketId (participants m))
     (meetings (run (init_state no_db) two_users_events) (js ''M''))
     = Some [Some (js ''s1''), Some (js ''s2'')] \<and>
   map_option (\<lambda>m'. map userId (participants m'))
     (meetings (fst (join_meeting (run (init_state no_db) two_users_events) (js ''s3'') (js ''M'')
        (js ''u1'') (js ''Ann'') 3)) (js ''M'')) = Some [js ''u1'', js ''u2''] \<and>
   map_option (\<lambda>m'. map socketId (participants m'))
     (meetings (fst (join_meeting (run (init_state no_db) two_users_events) (js ''s3'') (js ''M'')
        (js ''u1'') (js ''Ann'') 3)) (js ''M'')) = Some [Some (js ''s3''), Some (js ''s2'')] \<and>
   map_option (\<lambda>m'. map userId (participants m'))
     (meetings (fst (http_joinMeeting (run (init_state no_db) two_users_events) (js ''M'')
        (js ''u1'') (js ''Ann'') 3)) (js ''M'')) = Some [js ''u2'', js ''u1''] \<and>
   map_option (\<lambda>m'. map socketId (participants m'))
     (meetings (fst (http_joinMeeting (run (init_state no_db) two_users_events) (js ''M'')
        (js ''u1'') (js ''Ann'') 3)) (js ''M'')) = Some [Some (js ''s2''), None]"
proof -
  obtain m p1 p2 where m: "meetings (run (init_state no_db) two_users_events) (js ''M'') = Some m"
    and a: "isActive m" and ps: "participants m = [p1, p2]"
    and u: "userId p1 = js ''u1''" "userId p2 = js ''u2''"
    and s: "socketId p1 = Some (js ''s1'')" "socketId p2 = Some (js ''s2'')"
    using two_users_state by metis
  have n: "js ''u2'' \<noteq> js ''u1''" by (simp add: js_def)
  have i: "js ''u1'' \<in> set (map userId (participants m))" using ps u by simp
  from unique_participants[OF m, of "js ''u1''" "js ''s3''" "js ''Ann''" 3] a i
  have j: "map_option participants
          (meetings (fst (join_meeting (run (init_state no_db) two_users_events) (js ''s3'')
             (js ''M'') (js ''u1'') (js ''Ann'') 3)) (js ''M''))
        = Some [p1\<lparr>socketId := Some (js ''s3'')\<rparr>, p2]"
    and k: "map_option participants
          (meetings (fst (http_joinMeeting (run (init_state no_db) two_users_events) (js ''M'')
             (js ''u1'') (js ''Ann'') 3)) (js ''M''))
        = Some [p2, \<lparr>userId = js ''u1'', username = js ''Ann'', socketId = None,
                  isAudioMuted = False, isVideoOff = False, isHandRaised = False,
                  isScreenSharing = False, joinedAt = 3\<rparr>]"
    using ps u n by simp_all
  have c: "map_option (\<lambda>m'. f (participants m')) x = map_option f (map_option participants x)"
    for f :: "participant list \<Rightarrow> 'b" and x :: "meeting option"
    by (cases x) simp_all
  show ?thesis
    using m ps u s by (simp add: c j k)
qed

subsection \<open>Reconnecting\<close>

lemma find_assign_first:
  "find (\<lambda>p. userId p = uid) ps = Some e \<Longrightarrow>
   find (\<lambda>p. userId p = uid) (assign_first uid u ps) = Some (assign e u)"
  by (induction ps) (auto split: if_splits)

lemma join_meeting_reconnect:
  assumes m: "meetings st mid = Some m" and a: "isActive m"
    and e: "getParticipant m uid = Some existing"
    and o: "socketId existing = Some old" "old \<noteq> []" "old \<noteq> sid"
  shows "join_meeting st sid mid uid uname now =
     (let m' = m\<lparr>participants := assign_first uid (no_updates\<lparr>upd_socketId := Some sid\<rparr>) (participants m)\<rparr>
      in ((socket_join st sid mid)
            \<lparr>activeSockets := ((activeSockets st)
               (sid \<mapsto> \<lparr>s_userId = uid, s_username = uname, s_meetingId = mid\<rparr>))(old := None),
             meetings := (meetings st)(mid \<mapsto> m')\<rparr>,
          [(ToRoomExcept mid sid, UserDisconnected uid uname old),
           (Direct sid, JoinedMeeting mid
              (map info (filter (\<lambda>p. truthy (socketId p) \<and> socketId p \<noteq> Some sid) (participants m')))
              sid (messages m')),
           (ToRoomExcept mid sid, UserJoined uid uname sid now)]))"
  using assms
  by (simp add: join_meeting_def getMeeting_resident[OF m] reconnect_cleanup_def
      updateParticipant_socketId put_meeting_def socket_join_def getChatHistory_def Let_def)

text \<open>
  C4, as the code has it. A user listed with a connection id joins an active meeting
  from another socket. The stored entry gets the new socket id and is otherwise the
  same, the first message sent tells the room, without the joining socket, that the old
  socket of this user is disconnected, the old socket's entry of the handler's
  \<open>activeSockets\<close> map is deleted, and the list of user ids is unchanged. The transport
  keeps the old socket: the connected sockets are as before, and the only change of a
  room is that the joining socket enters the room of the meeting.
\<close>

theorem reconnect_replaces_connection:
  "meetings st mid = Some m \<Longrightarrow> isActive m \<Longrightarrow> getParticipant m uid = Some existing \<Longrightarrow>
   socketId existing = Some old \<Longrightarrow> old \<noteq> [] \<Longrightarrow> old \<noteq> sid \<Longrightarrow>
   map_option (\<lambda>m'. getParticipant m' uid)
       (meetings (fst (join_meeting st sid mid uid uname now)) mid)
     = Some (Some (existing\<lparr>socketId := Some sid\<rparr>)) \<and>
   hd (snd (join_meeting st sid mid uid uname now))
     = (ToRoomExcept mid sid, UserDisconnected uid uname old) \<and>
   activeSockets (fst (join_meeting st sid mid uid uname now))
     = ((activeSockets st)(sid \<mapsto> \<lparr>s_userId = uid, s_username = uname, s_meetingId = mid\<rparr>))
         (old := None) \<and>
   rooms (fst (join_meeting st sid mid uid uname now)) = (rooms st)(mid := insert sid (rooms st mid)) \<and>
   sockets (fst (join_meeting st sid mid uid uname now)) = sockets st \<and>
   map_option (\<lambda>m'. map userId (participants m'))
       (meetings (fst (join_meeting st sid mid uid uname now)) mid)
     = Some (map userId (participants m))"
proof -
  assume m: "meetings st mid = Some m" and a: "isActive m"
    and e: "getParticipant m uid = Some existing"
    and o: "socketId existing = Some old" "old \<noteq> []" "old \<noteq> sid"
  have f: "find (\<lambda>p. userId p = uid)
             (assign_first uid (no_updates\<lparr>upd_socketId := Some sid\<rparr>) (participants m))
           = Some (existing\<lparr>socketId := Some sid\<rparr>)"
    using find_assign_first[of uid "participants m" existing "no_updates\<lparr>upd_socketId := Some sid\<rparr>"] e
    by (simp add: getParticipant_def assign_def no_updates_def)
  show ?thesis
    using f o
    by (simp add: join_meeting_reconnect[OF m a e o] Let_def getParticipant_def socket_join_def)
qed

lemma joined_state:
  "\<exists>m p. meetings (run (init_state no_db) joined_events) (js ''M'') = Some m \<and> isActive m
     \<and> getParticipant m (js ''u1'') = Some p \<and> socketId p = Some (js ''s1'')
     \<and> map userId (participants m) = [js ''u1'']
     \<and> activeSockets (run (init_state no_db) joined_events) (js ''s1'')
         = Some \<lparr>s_userId = js ''u1'', s_username = js ''Ann'', s_meetingId = js ''M''\<rparr>
     \<and> host m = js ''h''"
  by (simp add: joined_events_def no_db_def init_state_def js_def http_createMeeting_def
      createMeeting_def new_meeting_def join_meeting_def getMeeting_def getParticipant_def
      addParticipant_def addActivity_def push_bounded_def connection_def
      socket_join_def put_meeting_def Let_def)

lemma joined_transport:
  "rooms (run (init_state no_db) joined_events) (js ''M'') = {js ''s1''} \<and>
   sockets (run (init_state no_db) joined_events) = {js ''s1''}"
  by (simp add: joined_events_def no_db_def init_state_def js_def http_createMeeting_def
      createMeeting_def new_meeting_def join_meeting_def getMeeting_def getParticipant_def
      addParticipant_def addActivity_def push_bounded_def connection_def
      socket_join_def put_meeting_def Let_def)

theorem reconnect_replaces_connection_witness:
  "map_option (\<lambda>m'. map socketId (participants m'))
       (meetings (fst (join_meeting (run (init_state no_db) joined_events) (js ''s2'') (js ''M'')
          (js ''u1'') (js ''Ann'') 3)) (js ''M''))
     = Some [Some (js ''s2'')] \<and>
   hd (snd (join_meeting (run (init_state no_db) joined_events) (js ''s2'') (js ''M'')
          (js ''u1'') (js ''Ann'') 3))
     = (ToRoomExcept (js ''M'') (js ''s2''), UserDisconnected (js ''u1'') (js ''Ann'') (js ''s1'')) \<and>
   activeSockets (fst (join_meeting (run (init_state no_db) joined_events) (js ''s2'') (js ''M'')
          (js ''u1'') (js ''Ann'') 3)) (js ''s1'') = None \<and>
   rooms (fst (join_meeting (run (init_state no_db) joined_events) (js ''s2'') (js ''M'')
          (js ''u1'') (js ''Ann'') 3)) (js ''M'') = {js ''s2'', js ''s1''} \<and>
   sockets (fst (join_meeting (run (init_state no_db) joined_events) (js ''s2'') (js ''M'')
          (js ''u1'') (js ''Ann'') 3)) = {js ''s1''} \<and>
   map_option (\<lambda>m'. map userId (participants m'))
       (meetings (fst (join_meeting (run (init_state no_db) joined_events) (js ''s2'') (js ''M'')
          (js ''u1'') (js ''Ann'') 3)) (js ''M''))
     = Some [js ''u1'']"
proof -
  obtain m p where m: "meetings (run (init_state no_db) joined_events) (js ''M'') = Some m"
    and a: "isActive m" and p: "getParticipant m (js ''u1'') = Some p"
    and s: "socketId p = Some (js ''s1'')" and u: "map userId (participants m) = [js ''u1'']"
    using joined_state by metis
  have n: "js ''s1'' \<noteq> []" "js ''s1'' \<noteq> js ''s2''" by (simp_all add: js_def)
  note t = reconnect_replaces_connection[OF m a p s n, of "js ''Ann''" 3]
  obtain m' where m': "meetings (fst (join_meeting (run (init_state no_db) joined_events) (js ''s2'')
      (js ''M'') (js ''u1'') (js ''Ann'') 3)) (js ''M'') = Some m'"
    using t by (cases "meetings (fst (join_meeting (run (init_state no_db) joined_events) (js ''s2'')
      (js ''M'') (js ''u1'') (js ''Ann'') 3)) (js ''M'')") auto
  have g: "getParticipant m' (js ''u1'') = Some (p\<lparr>socketId := Some (js ''s2'')\<rparr>)"
    and u': "map userId (participants m') = [js ''u1'']"
    using t m' u by simp_all
  from u' obtain q where q: "participants m' = [q]" by auto
  then have "q = p\<lparr>socketId := Some (js ''s2'')\<rparr>"
    using g u' by (simp add: getParticipant_def split: if_splits)
  then have "map socketId (participants m') = [Some (js ''s2'')]" using q by simp
  then show ?thesis using t m' u joined_transport n by simp
qed

text \<open>
  C4 as stated fails in one clause: the old connection's registration with the
  transport is not released. After the reconnect the old socket \<open>s1\<close> is still in the
  room of the meeting and still among the connected sockets, while the room has been
  told that it is disconnected.
\<close>

theorem old_socket_stays_registered_counterexample:
  "js ''s1'' \<in> rooms (fst (join_meeting (run (init_state no_db) joined_events) (js ''s2'') (js ''M'')
          (js ''u1'') (js ''Ann'') 3)) (js ''M'') \<and>
   js ''s1'' \<in> sockets (fst (join_meeting (run (init_state no_db) joined_events) (js ''s2'') (js ''M'')
          (js ''u1'') (js ''Ann'') 3)) \<and>
   hd (snd (join_meeting (run (init_state no_db) joined_events) (js ''s2'') (js ''M'')
          (js ''u1'') (js ''Ann'') 3))
     = (ToRoomExcept (js ''M'') (js ''s2''), UserDisconnected (js ''u1'') (js ''Ann'') (js ''s1''))"
proof -
  obtain m p where m: "meetings (run (init_state no_db) joined_events) (js ''M'') = Some m"
    and a: "isActive m" and p: "getParticipant m (js ''u1'') = Some p"
    and s: "socketId p = Some (js ''s1'')"
    using joined_state by metis
  have n: "js ''s1'' \<noteq> []" "js ''s1'' \<noteq> js ''s2''" by (simp_all add: js_def)
  show ?thesis
    using joined_transport
    by (simp add: join_meeting_reconnect[OF m a p s n] Let_def socket_join_def)
qed

subsection \<open>Host controls of a requester who is not the host\<close>

lemma getMeeting_frame:
  assumes "getMeeting st mid now = (st1, mo)"
  shows "meetings st \<subseteq>\<^sub>m meetings st1" and "rooms st1 = rooms st"
    and "activeSockets st1 = activeSockets st" and "sockets st1 = sockets st" and "db st1 = db st"
    and "meetings st mid \<noteq> None \<or> mo = None \<Longrightarrow> st1 = st"
  using assms
  by (auto simp: getMeeting_def map_le_def Let_def split: option.splits db_result.splits if_splits)

text \<open>
  C5. A mute or kick request for a meeting whose host is not the requester sends
  nothing and changes nothing: the state is the one the lookup of the meeting left,
  which is the state before when the meeting was in memory, and which otherwise differs
  only by the meeting shell that the lookup loaded; rooms, sockets and \<open>activeSockets\<close>
  are as before.
\<close>

theorem non_host_moderation_ignored:
  "getMeeting st mid now = (st1, Some m) \<Longrightarrow> host m \<noteq> requester \<Longrightarrow>
   host_mute_participant st mid requester targetUserId targetSocketId now = (st1, []) \<and>
   host_kick_participant st mid requester targetUserId targetSocketId targetUsername now = (st1, []) \<and>
   (meetings st mid = Some m \<longrightarrow> st1 = st) \<and>
   meetings st \<subseteq>\<^sub>m meetings st1 \<and> rooms st1 = rooms st \<and>
   activeSockets st1 = activeSockets st \<and> sockets st1 = sockets st \<and> db st1 = db st"
proof -
  assume g: "getMeeting st mid now = (st1, Some m)" and h: "host m \<noteq> requester"
  have "host_mute_participant st mid requester targetUserId targetSocketId now = (st1, [])"
    using g h by (simp add: host_mute_participant_def)
  moreover have "host_kick_participant st mid requester targetUserId targetSocketId targetUsername now = (st1, [])"
    using g h by (simp add: host_kick_participant_def)
  moreover have "meetings st mid = Some m \<longrightarrow> st1 = st"
    using getMeeting_frame(6)[OF g] by simp
  ultimately show ?thesis
    using getMeeting_frame(1-5)[OF g] by simp
qed

theorem non_host_moderation_ignored_witness:
  "host_mute_participant (run (init_state no_db) joined_events) (js ''M'') (js ''u1'') (js ''u1'')
      (js ''s1'') 3 = (run (init_state no_db) joined_events, []) \<and>
   host_kick_participant (run (init_state no_db) joined_events) (js ''M'') (js ''u1'') (js ''u1'')
      (js ''s1'') (js ''Ann'') 3 = (run (init_state no_db) joined_events, [])"
proof -
  obtain m where m: "meetings (run (init_state no_db) joined_events) (js ''M'') = Some m"
    and h: "host m = js ''h''"
    using joined_state by metis
  have n: "host m \<noteq> js ''u1''" using h by (simp add: js_def)
  from non_host_moderation_ignored[OF getMeeting_resident[OF m] n, of "js ''u1''" "js ''s1''" 3 "js ''Ann''"] m
  show ?thesis by simp
qed

subsection \<open>The vote broadcast\<close>

text \<open>
  C10. Every \<^verbatim>\<open>vote-poll\<close> event is answered by one \<^verbatim>\<open>poll-voted\<close> message to the
  room, carrying the request. If the meeting does not exist, or is resident and holds no
  poll with this id, the state does not change; if the lookup had to load the meeting,
  the state is the one the lookup left, the loaded shell holding no poll.
\<close>

theorem vote_broadcast_unconditional:
  "snd (vote_poll st vd now) = [(ToRoom (vd_meetingId vd), PollVoted vd)] \<and>
   (getMeeting st (vd_meetingId vd) now = (st1, None) \<longrightarrow> fst (vote_poll st vd now) = st) \<and>
   (meetings st (vd_meetingId vd) = Some m \<and>
      findIndex (is_poll (vd_pollId vd)) (getChatHistory m) = None \<longrightarrow>
      fst (vote_poll st vd now) = st) \<and>
   (meetings st (vd_meetingId vd) = None \<and> getMeeting st (vd_meetingId vd) now = (st1, Some m) \<longrightarrow>
      fst (vote_poll st vd now) = st1)"
proof (intro conjI impI)
  show "snd (vote_poll st vd now) = [(ToRoom (vd_meetingId vd), PollVoted vd)]"
    by (simp add: vote_poll_def split: prod.splits)
next
  assume g: "getMeeting st (vd_meetingId vd) now = (st1, None)"
  then have "st1 = st" using getMeeting_frame(6)[OF g] by simp
  then show "fst (vote_poll st vd now) = st" using g by (simp add: vote_poll_def)
next
  assume a: "meetings st (vd_meetingId vd) = Some m \<and>
      findIndex (is_poll (vd_pollId vd)) (getChatHistory m) = None"
  then have "(meetings st)(vd_meetingId vd \<mapsto> m) = meetings st" by (simp add: map_upd_triv)
  then show "fst (vote_poll st vd now) = st"
    using a by (simp add: vote_poll_def getMeeting_def vote_in_meeting_def put_meeting_def)
next
  assume a: "meetings st (vd_meetingId vd) = None \<and> getMeeting st (vd_meetingId vd) now = (st1, Some m)"
  then have "messages m = []" and "meetings st1 (vd_meetingId vd) = Some m"
    by (auto simp: getMeeting_def new_meeting_def Let_def split: db_result.splits if_splits)
  then have "vote_in_meeting m vd = m" and "(meetings st1)(vd_meetingId vd \<mapsto> m) = meetings st1"
    by (simp_all add: vote_in_meeting_def getChatHistory_def map_upd_triv)
  then show "fst (vote_poll st vd now) = st1"
    using a by (simp add: vote_poll_def put_meeting_def)
qed

lemma joined_state_chat:
  "\<exists>m. meetings (run (init_state no_db) joined_events) (js ''M'') = Some m \<and> messages m = []
     \<and> transcript m = []"
  by (simp add: joined_events_def no_db_def init_state_def js_def http_createMeeting_def
      createMeeting_def new_meeting_def join_meeting_def getMeeting_def getParticipant_def
      addParticipant_def addActivity_def push_bounded_def connection_def
      socket_join_def put_meeting_def Let_def)

lemma no_meeting_X: "getMeeting (run (init_state no_db) joined_events) (js ''X'') 3
    = (run (init_state no_db) joined_events, None)"
proof -
  have "meetings (run (init_state no_db) joined_events) (js ''X'') = None
      \<and> db (run (init_state no_db) joined_events) (js ''X'') = DbNull"
    by (simp add: joined_events_def no_db_def init_state_def js_def http_createMeeting_def
      createMeeting_def new_meeting_def join_meeting_def getMeeting_def getParticipant_def
      addParticipant_def addActivity_def push_bounded_def connection_def
      socket_join_def put_meeting_def Let_def)
  then show ?thesis by (simp add: getMeeting_def)
qed

theorem vote_broadcast_unconditional_witness:
  "snd (vote_poll (run (init_state no_db) joined_events) (example_vote (js ''M'') 0) 3)
     = [(ToRoom (js ''M''), PollVoted (example_vote (js ''M'') 0))] \<and>
   fst (vote_poll (run (init_state no_db) joined_events) (example_vote (js ''M'') 0) 3)
     = run (init_state no_db) joined_events \<and>
   snd (vote_poll (run (init_state no_db) joined_events) (example_vote (js ''X'') 0) 3)
     = [(ToRoom (js ''X''), PollVoted (example_vote (js ''X'') 0))] \<and>
   fst (vote_poll (run (init_state no_db) joined_events) (example_vote (js ''X'') 0) 3)
     = run (init_state no_db) joined_events"
proof -
  obtain m where m: "meetings (run (init_state no_db) joined_events) (js ''M'') = Some m"
    and e: "messages m = []"
    using joined_state_chat by metis
  have i: "vd_meetingId (example_vote mid oi) = mid" for mid oi
    by (simp add: example_vote_def)
  have f: "findIndex (is_poll (vd_pollId (example_vote (js ''M'') 0))) (getChatHistory m) = None"
    using e by (simp add: getChatHistory_def)
  from vote_broadcast_unconditional[of "run (init_state no_db) joined_events"
      "example_vote (js ''M'') 0" 3 "run (init_state no_db) joined_events" m]
    vote_broadcast_unconditional[of "run (init_state no_db) joined_events"
      "example_vote (js ''X'') 0" 3 "run (init_state no_db) joined_events" m]
    m f no_meeting_X
  show ?thesis by (simp add: i)
qed

subsection \<open>Bounded logs\<close>

lemma logs_bounded_reachable: "all_meetings logs_bounded (run (init_state d) evs)"
  by (rule run_keeps[of logs_bounded, OF logs_bounded_new logs_bounded_addParticipant
        logs_bounded_removeParticipant logs_bounded_updateParticipant logs_bounded_addMessage
        logs_bounded_addTranscript logs_bounded_vote logs_bounded_end all_meetings_init])

lemma messages_foldl_addMessage:
  "messages (foldl addMessage m msgs) = foldl (push_bounded 500) (messages m) msgs"
  by (induction msgs arbitrary: m) (simp_all add: addMessage_def)

lemma activities_foldl_addActivity:
  "activities (foldl (\<lambda>m a. addActivity m (act_type a) (act_userId a) (act_username a)
       (act_timestamp a)) m acts) = foldl (push_bounded 500) (activities m) acts"
proof (induction acts arbitrary: m)
  case Nil
  then show ?case by simp
next
  case (Cons a acts)
  have eq: "\<lparr>act_type = act_type a, act_userId = act_userId a, act_username = act_username a,
      act_timestamp = act_timestamp a\<rparr> = a"
    by (cases a) simp
  show ?case using Cons.IH by (simp add: addActivity_def eq)
qed

lemma trim_Nil [simp]: "trim [] = []"
  by (simp add: trim_def)

lemma transcript_foldl_addTranscript:
  "transcript (foldl (\<lambda>m e. addTranscript m (tr_userId e) (tr_username e) (Some (tr_text e))
       (Some (tr_isFinal e)) (tr_timestamp e)) m es)
   = foldl (push_bounded 1000) (transcript m)
       (map (\<lambda>e. e\<lparr>tr_text := trim (tr_text e)\<rparr>) (filter (\<lambda>e. trim (tr_text e) \<noteq> []) es))"
proof (induction es arbitrary: m)
  case Nil
  then show ?case by simp
next
  case (Cons e es)
  have eq: "\<lparr>tr_userId = tr_userId e, tr_username = tr_username e,
      tr_text = trim (tr_text e), tr_isFinal = tr_isFinal e, tr_timestamp = tr_timestamp e\<rparr>
      = e\<lparr>tr_text := trim (tr_text e)\<rparr>"
    by (cases e) simp
  have ne: "trim (tr_text e) \<noteq> [] \<Longrightarrow> tr_text e \<noteq> []"
    by auto
  show ?case
    using Cons.IH ne by (simp add: addTranscript_def eq)
qed

text \<open>
  C6. In every reachable state a meeting holds at most 500 messages, 1000 transcript
  entries and 500 activities. Appended to a new meeting one after the other, the
  messages kept are the last 500 in the order of arrival (of 501 messages the first one
  is gone), the activities kept are the last 500, and the transcript entries kept are the
  last 1000 of those whose text is not blank.
\<close>

theorem logs_are_bounded:
  "(meetings (run (init_state d) evs) mid = Some m \<longrightarrow>
      length (messages m) \<le> 500 \<and> length (transcript m) \<le> 1000 \<and> length (activities m) \<le> 500) \<and>
   messages (foldl addMessage (new_meeting mid h hname t now) msgs) = drop (length msgs - 500) msgs \<and>
   activities (foldl (\<lambda>m a. addActivity m (act_type a) (act_userId a) (act_username a)
       (act_timestamp a)) (new_meeting mid h hname t now) acts) = drop (length acts - 500) acts \<and>
   transcript (foldl (\<lambda>m e. addTranscript m (tr_userId e) (tr_username e) (Some (tr_text e))
       (Some (tr_isFinal e)) (tr_timestamp e)) (new_meeting mid h hname t now) es)
     = drop (length (filter (\<lambda>e. trim (tr_text e) \<noteq> []) es) - 1000)
         (map (\<lambda>e. e\<lparr>tr_text := trim (tr_text e)\<rparr>) (filter (\<lambda>e. trim (tr_text e) \<noteq> []) es))"
proof (intro conjI impI)
  assume m: "meetings (run (init_state d) evs) mid = Some m"
  then have "logs_bounded m"
    using logs_bounded_reachable[of d evs] by (simp add: all_meetings_def)
  then show "length (messages m) \<le> 500" "length (transcript m) \<le> 1000" "length (activities m) \<le> 500"
    by (simp_all add: logs_bounded_def)
next
  show "messages (foldl addMessage (new_meeting mid h hname t now) msgs) = drop (length msgs - 500) msgs"
    using foldl_push_bounded[of "[]" 500 msgs]
    by (simp add: messages_foldl_addMessage new_meeting_def)
next
  show "activities (foldl (\<lambda>m a. addActivity m (act_type a) (act_userId a) (act_username a)
       (act_timestamp a)) (new_meeting mid h hname t now) acts) = drop (length acts - 500) acts"
    using foldl_push_bounded[of "[]" 500 acts]
    by (simp add: activities_foldl_addActivity new_meeting_def)
next
  show "transcript (foldl (\<lambda>m e. addTranscript m (tr_userId e) (tr_username e) (Some (tr_text e))
       (Some (tr_isFinal e)) (tr_timestamp e)) (new_meeting mid h hname t now) es)
     = drop (length (filter (\<lambda>e. trim (tr_text e) \<noteq> []) es) - 1000)
         (map (\<lambda>e. e\<lparr>tr_text := trim (tr_text e)\<rparr>) (filter (\<lambda>e. trim (tr_text e) \<noteq> []) es))"
    using foldl_push_bounded[of "[]" 1000
        "map (\<lambda>e. e\<lparr>tr_text := trim (tr_text e)\<rparr>) (filter (\<lambda>e. trim (tr_text e) \<noteq> []) es)"]
    by (simp add: transcript_foldl_addTranscript new_meeting_def)
qed

lemma chat_state:
  "\<exists>m. meetings (run (init_state no_db) chat_events) (js ''M'') = Some m \<and>
     map msg_text (messages m) = [js ''hi'']"
  by (simp add: chat_events_def joined_events_def no_db_def init_state_def js_def http_createMeeting_def
      createMeeting_def new_meeting_def join_meeting_def getMeeting_def getParticipant_def
      addParticipant_def addActivity_def push_bounded_def connection_def chat_message_def
      addMessage_def socket_join_def put_meeting_def Let_def)

theorem logs_are_bounded_witness:
  "(case meetings (run (init_state no_db) chat_events) (js ''M'') of
      None \<Rightarrow> False
    | Some m \<Rightarrow> map msg_text (messages m) = [js ''hi''] \<and> length (messages m) \<le> 500 \<and>
        length (transcript m) \<le> 1000 \<and> length (activities m) \<le> 500) \<and>
   messages (foldl addMessage (new_meeting (js ''M'') (js ''h'') (js ''Host'') (js ''T'') 0)
       (map example_message [0..<501])) = map example_message [1..<501] \<and>
   length (messages (foldl addMessage (new_meeting (js ''M'') (js ''h'') (js ''Host'') (js ''T'') 0)
       (map example_message [0..<501]))) = 500"
proof -
  obtain m where m: "meetings (run (init_state no_db) chat_events) (js ''M'') = Some m"
    and t: "map msg_text (messages m) = [js ''hi'']"
    using chat_state by metis
  from logs_are_bounded[of no_db chat_events "js ''M''" m "js ''h''" "js ''Host''" "js ''T''" 0
      "map example_message [0..<501]"] m t
  show ?thesis by (simp add: drop_map)
qed

subsection \<open>Polls\<close>

lemma length_vote_options [simp]: "length (vote_options uid oi k opts) = length opts"
  by (induction opts arbitrary: k) (simp_all add: Let_def)

lemma counts_vote_options:
  "map count (vote_options uid oi k opts) = map (\<lambda>opt. length (votes opt)) (vote_options uid oi k opts)"
  by (induction opts arbitrary: k) (simp_all add: Let_def)

lemma distinct_vote_options:
  "list_all (\<lambda>opt. distinct (votes opt)) opts \<Longrightarrow>
   list_all (\<lambda>opt. distinct (votes opt)) (vote_options uid oi k opts)"
  by (induction opts arbitrary: k) (simp_all add: Let_def)

lemma card_voters:
  "list_all (\<lambda>opt. distinct (votes opt)) opts \<Longrightarrow>
   map (\<lambda>opt. card (set (votes opt))) opts = map (\<lambda>opt. length (votes opt)) opts"
  by (induction opts) (simp_all add: distinct_card)

lemma votes_vote_options:
  "j < length opts \<Longrightarrow>
   votes (vote_options uid oi k opts ! j) =
     filter (\<lambda>v. v \<noteq> uid) (votes (opts ! j)) @ (if int (k + j) = oi then [uid] else [])"
proof (induction opts arbitrary: k j)
  case Nil
  then show ?case by simp
next
  case (Cons opt opts)
  show ?case
  proof (cases j)
    case 0
    then show ?thesis by (simp add: Let_def)
  next
    case (Suc j')
    then show ?thesis using Cons.IH[of j' "Suc k"] Cons.prems by (simp add: Let_def)
  qed
qed

lemma voters_vote_options:
  "length (filter (\<lambda>opt. uid \<in> set (votes opt)) (vote_options uid oi k opts)) =
     (if int k \<le> oi \<and> oi < int k + int (length opts) then 1 else 0)"
proof (induction opts arbitrary: k)
  case Nil
  then show ?case by simp
next
  case (Cons opt opts)
  show ?case using Cons.IH[of "Suc k"] by (auto simp: Let_def)
qed

lemma vote_options_again:
  "vote_options uid b k (vote_options uid a k opts) = vote_options uid b k opts"
  by (induction opts arbitrary: k) (simp_all add: Let_def)

lemma findIndex_Some: "findIndex P xs = Some i \<Longrightarrow> i < length xs \<and> P (xs ! i)"
proof (induction xs arbitrary: i)
  case Nil
  then show ?case by simp
next
  case (Cons x xs)
  then show ?case by (cases i) (auto split: if_splits)
qed

lemma findIndex_update:
  "i < length xs \<Longrightarrow> P y = P (xs ! i) \<Longrightarrow> findIndex P (xs[i := y]) = findIndex P xs"
proof (induction xs arbitrary: i)
  case Nil
  then show ?case by simp
next
  case (Cons x xs)
  then show ?case by (cases i) auto
qed

lemma is_poll_options [simp]: "is_poll pid (poll\<lparr>msg_options := opts\<rparr>) = is_poll pid poll"
  by (simp add: is_poll_def)

lemma vote_in_meeting_found:
  assumes "findIndex (is_poll (vd_pollId vd)) (messages m) = Some i"
  shows "vote_in_meeting m vd =
     m\<lparr>messages := (messages m)[i := (messages m ! i)\<lparr>msg_options :=
          vote_options (vd_userId vd) (vd_optionIndex vd) 0 (msg_options (messages m ! i))\<rparr>]\<rparr>"
  using assms by (simp add: vote_in_meeting_def getChatHistory_def Let_def)

lemma vote_in_meeting_again:
  assumes "vd_pollId a = vd_pollId b" "vd_userId a = vd_userId b"
  shows "vote_in_meeting (vote_in_meeting m a) b = vote_in_meeting m b"
proof (cases "findIndex (is_poll (vd_pollId a)) (messages m)")
  case None
  then show ?thesis using assms by (simp add: vote_in_meeting_def getChatHistory_def)
next
  case (Some i)
  then have i: "i < length (messages m)" using findIndex_Some by blast
  let ?m1 = "vote_in_meeting m a"
  have m1: "?m1 = m\<lparr>messages := (messages m)[i := (messages m ! i)\<lparr>msg_options :=
          vote_options (vd_userId a) (vd_optionIndex a) 0 (msg_options (messages m ! i))\<rparr>]\<rparr>"
    using Some by (rule vote_in_meeting_found)
  have f1: "findIndex (is_poll (vd_pollId b)) (messages ?m1) = Some i"
    using Some i assms by (simp add: m1 findIndex_update)
  have fb: "findIndex (is_poll (vd_pollId b)) (messages m) = Some i"
    using Some assms by simp
  have "vote_in_meeting ?m1 b =
      ?m1\<lparr>messages := (messages ?m1)[i := (messages ?m1 ! i)\<lparr>msg_options :=
          vote_options (vd_userId b) (vd_optionIndex b) 0 (msg_options (messages ?m1 ! i))\<rparr>]\<rparr>"
    by (rule vote_in_meeting_found[OF f1])
  also have "\<dots> = m\<lparr>messages := (messages m)[i := (messages m ! i)\<lparr>msg_options :=
          vote_options (vd_userId b) (vd_optionIndex b) 0 (msg_options (messages m ! i))\<rparr>]\<rparr>"
    using i assms by (simp add: m1 vote_options_again)
  also have "\<dots> = vote_in_meeting m b"
    by (rule vote_in_meeting_found[OF fb, symmetric])
  finally show ?thesis .
qed

lemma foldl_vote_in_meeting:
  assumes "vds \<noteq> []" "list_all (\<lambda>vd. vd_pollId vd = pid \<and> vd_userId vd = uid) vds"
  shows "foldl vote_in_meeting m vds = vote_in_meeting m (last vds)"
  using assms
proof (induction vds arbitrary: m)
  case Nil
  then show ?case by simp
next
  case (Cons vd vds)
  show ?case
  proof (cases "vds = []")
    case True
    then show ?thesis by simp
  next
    case False
    then have l: "vd_pollId (last vds) = pid \<and> vd_userId (last vds) = uid"
      using Cons.prems(2) last_in_set[OF False] by (auto simp: list_all_iff)
    have "foldl vote_in_meeting m (vd # vds) = vote_in_meeting (vote_in_meeting m vd) (last vds)"
      using Cons.IH[OF False] Cons.prems(2) by simp
    also have "\<dots> = vote_in_meeting m (last vds)"
      using l Cons.prems(2) by (intro vote_in_meeting_again) simp_all
    finally show ?thesis using False by simp
  qed
qed

lemma run_votes:
  assumes "meetings st mid = Some m" "list_all (\<lambda>x. vd_meetingId (snd x) = mid) vds"
  shows "meetings (run st (map (\<lambda>x. (fst x, VotePoll (snd x))) vds)) mid
    = Some (foldl vote_in_meeting m (map snd vds))"
  using assms
proof (induction vds arbitrary: st m)
  case Nil
  then show ?case by simp
next
  case (Cons x vds)
  obtain now vd where x: "x = (now, vd)" by (cases x)
  have mid: "vd_meetingId vd = mid" using Cons.prems(2) x by simp
  have "meetings (fst (vote_poll st vd now)) mid = Some (vote_in_meeting m vd)"
    using Cons.prems(1) mid by (simp add: vote_poll_def getMeeting_resident put_meeting_def)
  then show ?case
    using Cons.IH[of "fst (vote_poll st vd now)" "vote_in_meeting m vd"] Cons.prems(2) x
    by simp
qed

text \<open>
  C7, as the code has it. One user votes any number of times, at least once, on one
  stored poll. The meeting is then as if only the last vote had been cast, and casting
  it once more changes nothing. Every option's \<open>count\<close> is the length of its \<open>votes\<close>,
  which is the number of its voters when no option of the poll listed a voter twice.
  If the last vote names an option of the poll, the user is a voter of exactly that
  option, and is in its \<open>votes\<close> once; if it names none, the user is a voter of no
  option.
\<close>

theorem last_vote_wins:
  assumes "meetings st mid = Some m"
    and "findIndex (is_poll pid) (messages m) = Some i"
    and "vds \<noteq> []"
    and "list_all (\<lambda>x. vd_meetingId (snd x) = mid \<and> vd_pollId (snd x) = pid \<and> vd_userId (snd x) = uid) vds"
  shows "meetings (run st (map (\<lambda>x. (fst x, VotePoll (snd x))) vds)) mid
           = Some (vote_in_meeting m (snd (last vds))) \<and>
         (let opts = msg_options (messages (vote_in_meeting m (snd (last vds))) ! i);
              oi = vd_optionIndex (snd (last vds))
          in length opts = length (msg_options (messages m ! i)) \<and>
             map count opts = map (\<lambda>opt. length (votes opt)) opts \<and>
             (list_all (\<lambda>opt. distinct (votes opt)) (msg_options (messages m ! i)) \<longrightarrow>
                map count opts = map (\<lambda>opt. card (set (votes opt))) opts) \<and>
             (0 \<le> oi \<and> oi < int (length opts) \<longrightarrow>
                length (filter (\<lambda>opt. uid \<in> set (votes opt)) opts) = 1 \<and>
                uid \<in> set (votes (opts ! nat oi)) \<and> count_list (votes (opts ! nat oi)) uid = 1) \<and>
             (\<not> (0 \<le> oi \<and> oi < int (length opts)) \<longrightarrow>
                filter (\<lambda>opt. uid \<in> set (votes opt)) opts = [])) \<and>
         vote_in_meeting (vote_in_meeting m (snd (last vds))) (snd (last vds))
           = vote_in_meeting m (snd (last vds))"
proof -
  let ?vd = "snd (last vds)"
  let ?before = "msg_options (messages m ! i)"
  let ?after = "vote_options uid (vd_optionIndex ?vd) 0 ?before"
  have all: "list_all (\<lambda>x. vd_meetingId (snd x) = mid) vds"
    "list_all (\<lambda>vd. vd_pollId vd = pid \<and> vd_userId vd = uid) (map snd vds)"
    using assms(4) by (auto simp: list_all_iff)
  have lastvd: "last (map snd vds) = ?vd"
    using assms(3) by (simp add: last_map)
  have vd: "vd_pollId ?vd = pid" "vd_userId ?vd = uid"
    using assms(3,4) last_in_set[OF assms(3)] by (auto simp: list_all_iff)
  have i: "i < length (messages m)"
    using findIndex_Some[OF assms(2)] by simp
  have run: "meetings (run st (map (\<lambda>x. (fst x, VotePoll (snd x))) vds)) mid
      = Some (vote_in_meeting m ?vd)"
    using run_votes[OF assms(1) all(1)] foldl_vote_in_meeting[of "map snd vds" pid uid m]
      assms(3) all(2) lastvd by simp
  have opts: "msg_options (messages (vote_in_meeting m ?vd) ! i) = ?after"
    using assms(2) i vd by (simp add: vote_in_meeting_found)
  have len: "length ?after = length ?before" by simp
  have cnt: "map count ?after = map (\<lambda>opt. length (votes opt)) ?after"
    by (rule counts_vote_options)
  have crd: "map count ?after = map (\<lambda>opt. card (set (votes opt))) ?after"
    if "list_all (\<lambda>opt. distinct (votes opt)) ?before"
  proof -
    have "list_all (\<lambda>opt. distinct (votes opt)) ?after"
      using that by (rule distinct_vote_options)
    then show ?thesis using card_voters[of ?after] cnt by simp
  qed
  have inr: "length (filter (\<lambda>opt. uid \<in> set (votes opt)) ?after) = 1 \<and>
      uid \<in> set (votes (?after ! nat (vd_optionIndex ?vd))) \<and>
      count_list (votes (?after ! nat (vd_optionIndex ?vd))) uid = 1"
    if r: "0 \<le> vd_optionIndex ?vd \<and> vd_optionIndex ?vd < int (length ?after)"
  proof -
    have n: "nat (vd_optionIndex ?vd) < length ?before"
      "int (nat (vd_optionIndex ?vd)) = vd_optionIndex ?vd"
      using r by auto
    have chosen: "votes (?after ! nat (vd_optionIndex ?vd))
        = filter (\<lambda>v. v \<noteq> uid) (votes (?before ! nat (vd_optionIndex ?vd))) @ [uid]"
      using votes_vote_options[OF n(1), of uid "vd_optionIndex ?vd" 0] n(2) by simp
    have "length (filter (\<lambda>opt. uid \<in> set (votes opt)) ?after) = 1"
      using r by (simp add: voters_vote_options)
    then show ?thesis by (simp add: chosen)
  qed
  have outr: "filter (\<lambda>opt. uid \<in> set (votes opt)) ?after = []"
    if r: "\<not> (0 \<le> vd_optionIndex ?vd \<and> vd_optionIndex ?vd < int (length ?after))"
  proof -
    have "length (filter (\<lambda>opt. uid \<in> set (votes opt)) ?after) = 0"
      using r by (simp add: voters_vote_options)
    then show ?thesis by simp
  qed
  have again: "vote_in_meeting (vote_in_meeting m ?vd) ?vd = vote_in_meeting m ?vd"
    by (rule vote_in_meeting_again) simp_all
  show ?thesis
    unfolding Let_def opts
    using run again len cnt crd inr outr by blast
qed

lemma poll_state:
  "\<exists>m. meetings (run (init_state no_db) poll_events) (js ''M'') = Some m \<and>
     findIndex (is_poll (Some 7)) (messages m) = Some 0 \<and>
     length (msg_options (messages m ! 0)) = 2 \<and>
     list_all (\<lambda>opt. distinct (votes opt)) (msg_options (messages m ! 0))"
  by (simp add: poll_events_def joined_events_def no_db_def init_state_def js_def http_createMeeting_def
      createMeeting_def new_meeting_def join_meeting_def getMeeting_def getParticipant_def
      addParticipant_def addActivity_def push_bounded_def connection_def create_poll_def
      addMessage_def socket_join_def put_meeting_def is_poll_def Let_def)

lemma stray_last: "snd (last stray_vote_sequence) = example_vote (js ''M'') 5"
  by (simp add: stray_vote_sequence_def)

theorem last_vote_wins_witness:
  "map_option (\<lambda>m'. length (filter (\<lambda>opt. js ''u1'' \<in> set (votes opt)) (msg_options (messages m' ! 0))))
     (meetings (run (run (init_state no_db) poll_events)
        (map (\<lambda>x. (fst x, VotePoll (snd x))) vote_sequence)) (js ''M'')) = Some 1 \<and>
   map_option (\<lambda>m'. count_list (votes (msg_options (messages m' ! 0) ! 1)) (js ''u1''))
     (meetings (run (run (init_state no_db) poll_events)
        (map (\<lambda>x. (fst x, VotePoll (snd x))) vote_sequence)) (js ''M'')) = Some 1 \<and>
   map_option (\<lambda>m'. map count (msg_options (messages m' ! 0)))
     (meetings (run (run (init_state no_db) poll_events)
        (map (\<lambda>x. (fst x, VotePoll (snd x))) vote_sequence)) (js ''M''))
   = map_option (\<lambda>m'. map (\<lambda>opt. card (set (votes opt))) (msg_options (messages m' ! 0)))
     (meetings (run (run (init_state no_db) poll_events)
        (map (\<lambda>x. (fst x, VotePoll (snd x))) vote_sequence)) (js ''M'')) \<and>
   map_option (\<lambda>m'. filter (\<lambda>opt. js ''u1'' \<in> set (votes opt)) (msg_options (messages m' ! 0)))
     (meetings (run (run (init_state no_db) poll_events)
        (map (\<lambda>x. (fst x, VotePoll (snd x))) stray_vote_sequence)) (js ''M'')) = Some []"
proof -
  obtain m where m: "meetings (run (init_state no_db) poll_events) (js ''M'') = Some m"
    and f: "findIndex (is_poll (Some 7)) (messages m) = Some 0"
    and l: "length (msg_options (messages m ! 0)) = 2"
    and d: "list_all (\<lambda>opt. distinct (votes opt)) (msg_options (messages m ! 0))"
    using poll_state by metis
  have ne: "vote_sequence \<noteq> []" "stray_vote_sequence \<noteq> []"
    by (simp_all add: vote_sequence_def stray_vote_sequence_def)
  have la: "snd (last vote_sequence) = example_vote (js ''M'') 1"
    by (simp add: vote_sequence_def)
  have al: "list_all (\<lambda>x. vd_meetingId (snd x) = js ''M'' \<and> vd_pollId (snd x) = Some 7
      \<and> vd_userId (snd x) = js ''u1'') vote_sequence"
    "list_all (\<lambda>x. vd_meetingId (snd x) = js ''M'' \<and> vd_pollId (snd x) = Some 7
      \<and> vd_userId (snd x) = js ''u1'') stray_vote_sequence"
    by (simp_all add: vote_sequence_def stray_vote_sequence_def example_vote_def)
  have oi: "vd_optionIndex (example_vote (js ''M'') 1) = 1" "vd_optionIndex (example_vote (js ''M'') 5) = 5"
    by (simp_all add: example_vote_def)
  from last_vote_wins[OF m f ne(1) al(1)] last_vote_wins[OF m f ne(2) al(2)] d l
  show ?thesis by (auto simp add: Let_def la stray_last oi)
qed

text \<open>
  C7 as stated fails: the user votes for option 0 and then for option 5 of a poll with
  two options, and is a voter of no option after the last call.
\<close>

theorem stray_vote_counterexample:
  "map_option (map votes \<circ> msg_options \<circ> hd \<circ> messages)
     (meetings (run (init_state no_db) stray_vote_events) (js ''M'')) = Some [[], []]"
  by (simp add: stray_vote_events_def poll_events_def joined_events_def no_db_def init_state_def js_def
      http_createMeeting_def createMeeting_def new_meeting_def join_meeting_def getMeeting_def
      getParticipant_def addParticipant_def addActivity_def push_bounded_def connection_def
      create_poll_def addMessage_def socket_join_def put_meeting_def is_poll_def Let_def
      vote_poll_def vote_in_meeting_def getChatHistory_def example_vote_def)

subsection \<open>Transcript entries\<close>







subsection \<open>A socket that disconnects\<close>

lemma sessions_step:
  assumes "sessions_resident st"
    and "dom (meetings st) \<subseteq> dom (meetings st')"
    and "\<And>sid s. activeSockets st' sid = Some s \<Longrightarrow>
           activeSockets st sid = Some s \<or> meetings st' (s_meetingId s) \<noteq> None"
  shows "sessions_resident st'"
  unfolding sessions_resident_def
proof (intro allI impI)
  fix sid s
  assume a: "activeSockets st' sid = Some s"
  from assms(3)[OF a] show "meetings st' (s_meetingId s) \<noteq> None"
  proof
    assume "activeSockets st sid = Some s"
    then have "meetings st (s_meetingId s) \<noteq> None"
      using assms(1) by (simp add: sessions_resident_def)
    then show ?thesis using assms(2) by auto
  next
    assume "meetings st' (s_meetingId s) \<noteq> None"
    then show ?thesis .
  qed
qed

text \<open>A handler that looks a meeting up and leaves \<open>activeSockets\<close> alone.\<close>

lemma lookup_sessions:
  assumes inv: "sessions_resident st"
    and g: "getMeeting st mid now = (st1, mo)"
    and eq: "meetings st' =
      (case mo of None \<Rightarrow> meetings st1
       | Some m \<Rightarrow> if c m then (meetings st1)(mid \<mapsto> f m) else meetings st1)"
    and act: "activeSockets st' = activeSockets st"
  shows "sessions_resident st'"
proof (rule sessions_step[OF inv])
  have "dom (meetings st) \<subseteq> dom (meetings st1)"
    using getMeeting_frame(1)[OF g] by (rule map_le_implies_dom_le)
  moreover have "dom (meetings st1) \<subseteq> dom (meetings st')"
    using eq by (auto split: option.splits if_splits)
  ultimately show "dom (meetings st) \<subseteq> dom (meetings st')" by blast
next
  fix sid s
  assume "activeSockets st' sid = Some s"
  then show "activeSockets st sid = Some s \<or> meetings st' (s_meetingId s) \<noteq> None"
    using act by simp
qed

lemma activeSockets_reconnect_cleanup:
  "activeSockets (fst (reconnect_cleanup st sid mid uid uname existing)) x = Some s
   \<Longrightarrow> activeSockets st x = Some s"
  by (auto simp: reconnect_cleanup_def split: option.splits if_splits)

lemma activeSockets_join_meeting:
  assumes g: "getMeeting st mid now = (st1, mo)"
    and a: "activeSockets (fst (join_meeting st sid mid uid uname now)) x = Some s"
  shows "activeSockets st x = Some s \<or> (s_meetingId s = mid \<and> (\<exists>m. mo = Some m \<and> isActive m))"
proof (cases mo)
  case None
  then show ?thesis using g a getMeeting_frame(3)[OF g] by (simp add: join_meeting_def)
next
  case (Some m)
  show ?thesis
  proof (cases "isActive m")
    case False
    then show ?thesis using g a Some getMeeting_frame(3)[OF g] by (simp add: join_meeting_def)
  next
    case True
    define st2 where "st2 = (socket_join st1 sid mid)
                         \<lparr>activeSockets := (activeSockets st1)
                            (sid \<mapsto> \<lparr>s_userId = uid, s_username = uname, s_meetingId = mid\<rparr>)\<rparr>"
    have st2: "activeSockets st2 x = Some s \<Longrightarrow> activeSockets st x = Some s \<or> s_meetingId s = mid"
      using getMeeting_frame(3)[OF g] by (auto simp: st2_def split: if_splits)
    show ?thesis
    proof (cases "getParticipant m uid")
      case None
      then have "activeSockets (fst (join_meeting st sid mid uid uname now)) = activeSockets st2"
        using g Some True by (simp add: join_meeting_def put_meeting_def st2_def)
      then show ?thesis using a st2 Some True by simp
    next
      case (Some existing)
      obtain st' notice where r: "reconnect_cleanup st2 sid mid uid uname existing = (st', notice)"
        by force
      have "activeSockets (fst (join_meeting st sid mid uid uname now)) = activeSockets st'"
        using g \<open>mo = Some m\<close> True Some r
        by (simp add: join_meeting_def put_meeting_def st2_def[symmetric])
      then have "activeSockets st2 x = Some s"
        using a activeSockets_reconnect_cleanup[of st2 sid mid uid uname existing x s] r by simp
      then show ?thesis using st2 \<open>mo = Some m\<close> True by simp
    qed
  qed
qed

lemma handle_sessions:
  assumes inv: "sessions_resident st"
  shows "sessions_resident (fst (handle st e))"
proof -
  obtain now ev where e: "e = (now, ev)" by (cases e)
  note look = lookup_sessions[OF inv]
  show ?thesis
  proof (cases ev)
    case (Connection sid)
    then show ?thesis using inv e
      by (simp add: connection_def socket_join_def sessions_resident_def)
  next
    case (Disconnect sid)
    have inv': "sessions_resident (transport_close st sid)"
      using inv by (simp add: transport_close_def sessions_resident_def)
    show ?thesis
    proof (cases "activeSockets st sid")
      case None
      then show ?thesis using inv' e Disconnect
        by (simp add: disconnect_def disconnect_handler_def transport_close_def)
    next
      case (Some session)
      obtain st1 mo where g: "getMeeting (transport_close st sid) (s_meetingId session) now = (st1, mo)"
        by force
      have a: "activeSockets (transport_close st sid) sid = Some session"
        using Some by (simp add: transport_close_def)
      have "sessions_resident st1"
        by (rule lookup_sessions[OF inv' g, where f = "\<lambda>m. m" and c = "\<lambda>m. False"])
           (simp_all add: getMeeting_frame(3)[OF g] split: option.splits)
      then have "sessions_resident (st1\<lparr>activeSockets := (activeSockets st1)(sid := None)\<rparr>)"
        by (simp add: sessions_resident_def)
      then show ?thesis unfolding e Disconnect
        by (simp add: disconnect_def disconnect_handler_def g a)
    qed
  next
    case (JoinMeeting sid mid uid uname)
    obtain st1 mo where g: "getMeeting st mid now = (st1, mo)" by force
    show ?thesis unfolding e JoinMeeting
    proof (rule sessions_step[OF inv])
      have "dom (meetings st) \<subseteq> dom (meetings st1)"
        using getMeeting_frame(1)[OF g] by (rule map_le_implies_dom_le)
      moreover have "dom (meetings st1) \<subseteq> dom (meetings (fst (join_meeting st sid mid uid uname now)))"
        by (auto simp: meetings_join_meeting[OF g] split: option.splits if_splits)
      ultimately show "dom (meetings st)
          \<subseteq> dom (meetings (fst (handle st (now, JoinMeeting sid mid uid uname))))"
        by auto
    next
      fix x s
      assume "activeSockets (fst (handle st (now, JoinMeeting sid mid uid uname))) x = Some s"
      then have "activeSockets st x = Some s \<or> (s_meetingId s = mid \<and> (\<exists>m. mo = Some m \<and> isActive m))"
        using activeSockets_join_meeting[OF g] by simp
      then show "activeSockets st x = Some s
          \<or> meetings (fst (handle st (now, JoinMeeting sid mid uid uname))) (s_meetingId s) \<noteq> None"
        by (auto simp: meetings_join_meeting[OF g])
    qed
  next
    case (LeaveMeeting sid mid uid)
    obtain st1 mo where g: "getMeeting st mid now = (st1, mo)" by force
    have "sessions_resident (case mo of None \<Rightarrow> st1 | Some m \<Rightarrow> put_meeting st1 mid (removeParticipant m uid now))"
      by (rule look[OF g, where c = "\<lambda>m. True" and f = "\<lambda>m. removeParticipant m uid now"])
         (simp_all add: getMeeting_frame(3)[OF g] put_meeting_def split: option.splits)
    then have "sessions_resident (fst (leave_meeting st sid mid uid now))"
      by (auto simp: leave_meeting_def g sessions_resident_def put_meeting_def socket_leave_def
          split: option.splits if_splits)
    then show ?thesis unfolding e LeaveMeeting by simp
  next
    case (ChatMessageEv mid uid uname body fresh)
    obtain st1 mo where g: "getMeeting st mid now = (st1, mo)" by force
    show ?thesis unfolding e ChatMessageEv
      by (rule look[OF g, where c = "\<lambda>m. True" and f = "\<lambda>m. addMessage m
            \<lparr>msg_id = Some fresh, msg_type = TextType, msg_meetingId = mid,
                      msg_userId = uid, msg_username = uname, msg_text = body, msg_options = []\<rparr>"])
         (simp_all add: chat_message_def g getMeeting_frame(3)[OF g] put_meeting_def Let_def
            split: option.splits)
  next
    case (FileShare mid uid uname body fresh)
    obtain st1 mo where g: "getMeeting st mid now = (st1, mo)" by force
    show ?thesis unfolding e FileShare
      by (rule look[OF g, where c = "\<lambda>m. True" and f = "\<lambda>m. addMessage m
            \<lparr>msg_id = Some fresh, msg_type = FileType, msg_meetingId = mid,
                      msg_userId = uid, msg_username = uname, msg_text = body, msg_options = []\<rparr>"])
         (simp_all add: file_share_def g getMeeting_frame(3)[OF g] put_meeting_def Let_def
            split: option.splits)
  next
    case (CreatePoll pid mid uid uname q opts)
    obtain st1 mo where g: "getMeeting st mid now = (st1, mo)" by force
    show ?thesis unfolding e CreatePoll
      by (rule look[OF g, where c = "\<lambda>m. True" and f = "\<lambda>m. addMessage m
            \<lparr>msg_id = pid, msg_type = PollType, msg_meetingId = mid,
                          msg_userId = uid, msg_username = uname, msg_text = q,
                          msg_options = map formatOption opts\<rparr>"])
         (simp_all add: create_poll_def g getMeeting_frame(3)[OF g] put_meeting_def Let_def
            split: option.splits)
  next
    case (VotePoll vd)
    obtain st1 mo where g: "getMeeting st (vd_meetingId vd) now = (st1, mo)" by force
    show ?thesis unfolding e VotePoll
      by (rule look[OF g, where c = "\<lambda>m. True" and f = "\<lambda>m. vote_in_meeting m vd"])
         (simp_all add: vote_poll_def g getMeeting_frame(3)[OF g] put_meeting_def split: option.splits)
  next
    case (GetChatHistory sid mid)
    obtain st1 mo where g: "getMeeting st mid now = (st1, mo)" by force
    show ?thesis unfolding e GetChatHistory
      by (rule look[OF g, where c = "\<lambda>m. False" and f = "\<lambda>m. m"])
         (simp_all add: get_chat_history_def g getMeeting_frame(3)[OF g] split: option.splits)
  next
    case (Transcript sid mid uid uname body isFinal)
    obtain st1 mo where g: "getMeeting st mid now = (st1, mo)" by force
    show ?thesis unfolding e Transcript
      by (rule look[OF g, where c = "\<lambda>m. case body of None \<Rightarrow> False | Some t \<Rightarrow> t \<noteq> [] \<and> trim t \<noteq> []"
            and f = "\<lambda>m. addTranscript m uid uname body isFinal now"])
         (simp_all add: transcript_handler_def g getMeeting_frame(3)[OF g] put_meeting_def
            split: option.splits)
  next
    case (ToggleAudio sid mid uid b)
    obtain st1 mo where g: "getMeeting st mid now = (st1, mo)" by force
    show ?thesis unfolding e ToggleAudio
      by (rule look[OF g, where c = "\<lambda>m. True"
            and f = "\<lambda>m. updateParticipant m uid (no_updates\<lparr>upd_isAudioMuted := Some b\<rparr>) now"])
         (simp_all add: toggle_audio_def g getMeeting_frame(3)[OF g] put_meeting_def split: option.splits)
  next
    case (ToggleVideo sid mid uid b)
    obtain st1 mo where g: "getMeeting st mid now = (st1, mo)" by force
    show ?thesis unfolding e ToggleVideo
      by (rule look[OF g, where c = "\<lambda>m. True"
            and f = "\<lambda>m. updateParticipant m uid (no_updates\<lparr>upd_isVideoOff := Some b\<rparr>) now"])
         (simp_all add: toggle_video_def g getMeeting_frame(3)[OF g] put_meeting_def split: option.splits)
  next
    case (RaiseHand sid mid uid b)
    obtain st1 mo where g: "getMeeting st mid now = (st1, mo)" by force
    show ?thesis unfolding e RaiseHand
      by (rule look[OF g, where c = "\<lambda>m. True"
            and f = "\<lambda>m. updateParticipant m uid (no_updates\<lparr>upd_isHandRaised := Some b\<rparr>) now"])
         (simp_all add: raise_hand_def g getMeeting_frame(3)[OF g] put_meeting_def split: option.splits)
  next
    case (ScreenShare sid mid uid b)
    obtain st1 mo where g: "getMeeting st mid now = (st1, mo)" by force
    show ?thesis unfolding e ScreenShare
      by (rule look[OF g, where c = "\<lambda>m. True"
            and f = "\<lambda>m. updateParticipant m uid (no_updates\<lparr>upd_isScreenSharing := Some b\<rparr>) now"])
         (simp_all add: screen_share_def g getMeeting_frame(3)[OF g] put_meeting_def split: option.splits)
  next
    case (HostMuteParticipant mid h tu ts)
    obtain st1 mo where g: "getMeeting st mid now = (st1, mo)" by force
    show ?thesis unfolding e HostMuteParticipant
      by (rule look[OF g, where c = "\<lambda>m. host m = h"
            and f = "\<lambda>m. updateParticipant m tu (no_updates\<lparr>upd_isAudioMuted := Some True\<rparr>) now"])
         (simp_all add: host_mute_participant_def g getMeeting_frame(3)[OF g] put_meeting_def
            split: option.splits)
  next
    case (HostKickParticipant mid h tu ts tn)
    obtain st1 mo where g: "getMeeting st mid now = (st1, mo)" by force
    show ?thesis unfolding e HostKickParticipant
      by (rule look[OF g, where c = "\<lambda>m. host m = h"
            and f = "\<lambda>m. removeParticipant m tu now"])
         (simp_all add: host_kick_participant_def g getMeeting_frame(3)[OF g] put_meeting_def
            socket_leave_def Let_def split: option.splits)
  next
    case (HttpCreateMeeting mid h hname t ok)
    then show ?thesis using inv e
      by (simp add: http_createMeeting_def createMeeting_def sessions_resident_def Let_def)
  next
    case (HttpGetMeeting mid)
    obtain st1 mo where g: "getMeeting st mid now = (st1, mo)" by force
    show ?thesis unfolding e HttpGetMeeting
      by (rule look[OF g, where c = "\<lambda>m. False" and f = "\<lambda>m. m"])
         (simp_all add: http_getMeeting_def g getMeeting_frame(3)[OF g] split: option.splits)
  next
    case (HttpJoinMeeting mid uid uname)
    obtain st1 mo where g: "getMeeting st mid now = (st1, mo)" by force
    show ?thesis unfolding e HttpJoinMeeting
      by (rule look[OF g, where c = isActive and f = "\<lambda>m. addParticipant m uid uname None now"])
         (simp_all add: http_joinMeeting_def g getMeeting_frame(3)[OF g] put_meeting_def
            split: option.splits)
  next
    case (HttpLeaveMeeting mid uid)
    obtain st1 mo where g: "getMeeting st mid now = (st1, mo)" by force
    show ?thesis unfolding e HttpLeaveMeeting
      by (rule look[OF g, where c = "\<lambda>m. True" and f = "\<lambda>m. removeParticipant m uid now"])
         (simp_all add: http_leaveMeeting_def g getMeeting_frame(3)[OF g] put_meeting_def
            split: option.splits)
  next
    case (HttpEndMeeting mid uid ok)
    obtain st1 mo where g: "getMeeting st mid now = (st1, mo)" by force
    show ?thesis unfolding e HttpEndMeeting
      by (rule look[OF g, where c = "\<lambda>m. host m = uid"
            and f = "\<lambda>m. m\<lparr>isActive := False, endedAt := Some now\<rparr>"])
         (simp_all add: http_endMeeting_def g getMeeting_frame(3)[OF g] put_meeting_def Let_def
            split: option.splits db_result.splits)
  qed
qed

lemma sessions_resident_reachable: "sessions_resident (run (init_state d) evs)"
proof -
  have "sessions_resident st \<Longrightarrow> sessions_resident (run st evs)" for st
  proof (induction evs arbitrary: st)
    case Nil
    then show ?case by simp
  next
    case (Cons e es)
    then show ?case using handle_sessions[of st e] by simp
  qed
  moreover have "sessions_resident (init_state d)"
    by (simp add: sessions_resident_def init_state_def)
  ultimately show ?thesis by blast
qed

lemma disconnect_resident:
  "activeSockets st sid = Some session \<Longrightarrow> meetings st (s_meetingId session) = Some m \<Longrightarrow>
   snd (disconnect st sid now) =
     [(ToRoomExcept (s_meetingId session) sid,
       UserDisconnected (s_userId session) (s_username session) sid)] \<and>
   meetings (fst (disconnect st sid now)) = meetings st \<and>
   db (fst (disconnect st sid now)) = db st \<and>
   activeSockets (fst (disconnect st sid now)) = (activeSockets st)(sid := None)"
  by (simp add: disconnect_def disconnect_handler_def transport_close_def getMeeting_def)

text \<open>
  C9. In a state the server has reached, a socket that is bound to a user and a meeting
  disconnects without leaving. The room is told that the socket is disconnected, the
  socket's entry of \<open>activeSockets\<close> is deleted, and every meeting, with its participants
  and all other fields, is exactly as before; so is the durable store.
\<close>

theorem disconnect_keeps_participant:
  "activeSockets (run (init_state d) evs) sid = Some session \<Longrightarrow>
   snd (disconnect (run (init_state d) evs) sid now) =
     [(ToRoomExcept (s_meetingId session) sid,
       UserDisconnected (s_userId session) (s_username session) sid)] \<and>
   meetings (fst (disconnect (run (init_state d) evs) sid now)) = meetings (run (init_state d) evs) \<and>
   db (fst (disconnect (run (init_state d) evs) sid now)) = db (run (init_state d) evs) \<and>
   activeSockets (fst (disconnect (run (init_state d) evs) sid now))
     = (activeSockets (run (init_state d) evs))(sid := None)"
proof -
  assume a: "activeSockets (run (init_state d) evs) sid = Some session"
  then obtain m where "meetings (run (init_state d) evs) (s_meetingId session) = Some m"
    using sessions_resident_reachable[of d evs] by (auto simp: sessions_resident_def)
  with a show ?thesis by (rule disconnect_resident)
qed

theorem disconnect_keeps_participant_witness:
  "snd (disconnect (run (init_state no_db) joined_events) (js ''s1'') 3) =
     [(ToRoomExcept (js ''M'') (js ''s1''), UserDisconnected (js ''u1'') (js ''Ann'') (js ''s1''))] \<and>
   map_option (\<lambda>m. map userId (participants m))
     (meetings (fst (disconnect (run (init_state no_db) joined_events) (js ''s1'') 3)) (js ''M''))
     = Some [js ''u1'']"
proof -
  obtain m where m: "meetings (run (init_state no_db) joined_events) (js ''M'') = Some m"
    and u: "map userId (participants m) = [js ''u1'']"
    and s: "activeSockets (run (init_state no_db) joined_events) (js ''s1'')
         = Some \<lparr>s_userId = js ''u1'', s_username = js ''Ann'', s_meetingId = js ''M''\<rparr>"
    using joined_state by metis
  from disconnect_keeps_participant[OF s, of 3] m u
  show ?thesis by simp
qed

end
